theory Spec2Isabelle
  imports Complex_Main "HOL-Library.Char_ord" "HOL-Library.List_Lexorder"
begin

section \<open>JavaScript values\<close>

text \<open>
  The worker (the multi-region variant, \<^verbatim>\<open>src/index.js\<close> lines 227--468) is
  dynamically typed: every value it reads comes out of \<^verbatim>\<open>JSON.parse\<close> or is
  \<^verbatim>\<open>undefined\<close>. A JavaScript number is an IEEE double: its three special values,
  or a finite value, taken as the real it denotes (the two zeros are identified).
  Comparison, truthiness and \<^verbatim>\<open>isNaN\<close> are exact on this carrier; an arithmetic
  operation rounds its exact result with the host's \<open>round_double\<close>.
\<close>

datatype jsnum = NaN | NInf | Fin real | PInf

text \<open>
  A string is the list of bytes of its UTF-8 encoding (so only well-formed strings, with no
  lone surrogate, are values). An object is the list of its own properties in insertion
  order; \<^verbatim>\<open>JSON.parse\<close> yields objects with distinct keys, and a lookup takes the
  first entry of a key.
\<close>

datatype json =
    JUndefined
  | JNull
  | JBool bool
  | JNum jsnum
  | JStr string
  | JArr "json list"
  | JObj "(string \<times> json) list"

datatype js_error =
    Error string
  | TypeError
  | SyntaxError
  | FetchFailed

text \<open>The response of \<^verbatim>\<open>fetch\<close>: a rejected promise, or a response object.\<close>

datatype response =
    Rejected
  | Response (ok: bool) (status: nat) (statusText: string) (body: string)

text \<open>
  What the host provides and the repository does not define. \<open>fetch_at n url\<close> is the
  outcome of the call \<^verbatim>\<open>fetch(url, {method})\<close> made after \<open>n\<close> earlier calls of the
  run, so that the provider may answer the same request differently over time;
  \<open>randomUUID_at\<close> and \<open>toISOString_at\<close> are indexed the same way.
  \<open>Number_toString\<close>, \<open>StringToNumber\<close> and \<open>parseFloat_str\<close> are the language's
  conversions between numbers and strings, \<open>Function_toString\<close> is the source text the
  host shows for a built-in function, \<open>String_toUpperCase\<close> is the case mapping of
  strings, \<open>round_double\<close> rounds an exact result to the nearest double (an infinity
  when it overflows), and \<open>hmac_sha1\<close> is \<^verbatim>\<open>crypto.subtle.sign('HMAC', key, data)\<close>
  for a SHA-1 key, on byte strings.
\<close>

record platform =
  JSON_parse :: "string \<Rightarrow> json option"
  JSON_stringify :: "json \<Rightarrow> string"
  Number_toString :: "jsnum \<Rightarrow> string"
  Function_toString :: "string \<Rightarrow> string"
  StringToNumber :: "string \<Rightarrow> jsnum"
  parseFloat_str :: "string \<Rightarrow> jsnum"
  String_toUpperCase :: "string \<Rightarrow> string"
  round_double :: "real \<Rightarrow> jsnum"
  randomUUID_at :: "nat \<Rightarrow> string"
  toISOString_at :: "nat \<Rightarrow> string"
  hmac_sha1 :: "string \<Rightarrow> string \<Rightarrow> string"
  btoa :: "string \<Rightarrow> string"
  fetch_at :: "nat \<Rightarrow> string \<Rightarrow> response"

subsection \<open>Thrown errors\<close>

text \<open>
  An expression that may throw has a value of type \<open>js_error + 'a\<close>; \<open>try_bind\<close> is
  sequencing, and \<open>collect\<close> evaluates a list of expressions in order, up to the first
  that throws.
\<close>

definition try_bind :: "js_error + 'a \<Rightarrow> ('a \<Rightarrow> js_error + 'b) \<Rightarrow> js_error + 'b" where
  "try_bind r f = (case r of Inl e \<Rightarrow> Inl e | Inr a \<Rightarrow> f a)"

fun collect :: "(js_error + 'a) list \<Rightarrow> js_error + 'a list" where
  "collect [] = Inr []"
| "collect (r # rs) = try_bind r (\<lambda>a. try_bind (collect rs) (\<lambda>as. Inr (a # as)))"

subsection \<open>Numbers\<close>

fun jsnum_lt :: "jsnum \<Rightarrow> jsnum \<Rightarrow> bool" where
  "jsnum_lt NaN y = False"
| "jsnum_lt x NaN = False"
| "jsnum_lt NInf y = (y \<noteq> NInf)"
| "jsnum_lt (Fin a) NInf = False"
| "jsnum_lt (Fin a) (Fin b) = (a < b)"
| "jsnum_lt (Fin a) PInf = True"
| "jsnum_lt PInf y = False"

fun jsnum_ge :: "jsnum \<Rightarrow> jsnum \<Rightarrow> bool" where
  "jsnum_ge NaN y = False"
| "jsnum_ge x NaN = False"
| "jsnum_ge PInf y = True"
| "jsnum_ge (Fin a) PInf = False"
| "jsnum_ge (Fin a) (Fin b) = (b \<le> a)"
| "jsnum_ge (Fin a) NInf = True"
| "jsnum_ge NInf y = (y = NInf)"

text \<open>The sum of two doubles: the exact sum of two finite values, rounded.\<close>

fun jsnum_add :: "platform \<Rightarrow> jsnum \<Rightarrow> jsnum \<Rightarrow> jsnum" where
  "jsnum_add P NaN y = NaN"
| "jsnum_add P x NaN = NaN"
| "jsnum_add P PInf NInf = NaN"
| "jsnum_add P NInf PInf = NaN"
| "jsnum_add P PInf y = PInf"
| "jsnum_add P x PInf = PInf"
| "jsnum_add P NInf y = NInf"
| "jsnum_add P x NInf = NInf"
| "jsnum_add P (Fin a) (Fin b) = round_double P (a + b)"

text \<open>
  Division by a positive finite constant, as in \<^verbatim>\<open>traffic / (1024 ** 3)\<close>: the
  exact quotient of a finite value, rounded.
\<close>

fun jsnum_div_pos :: "platform \<Rightarrow> jsnum \<Rightarrow> real \<Rightarrow> jsnum" where
  "jsnum_div_pos P (Fin a) d = round_double P (a / d)"
| "jsnum_div_pos P x d = x"

definition isNaN :: "jsnum \<Rightarrow> bool" where
  "isNaN x = (x = NaN)"

subsection \<open>Strings\<close>

text \<open>
  The UTF-16 code units of a string, which is what the default order of
  \<^verbatim>\<open>Array.prototype.sort\<close> compares: one unit for a character of one, two or three
  bytes, a surrogate pair for a character of four bytes.
\<close>

definition cp2 :: "char \<Rightarrow> char \<Rightarrow> nat" where
  "cp2 a b = (of_char a mod 32) * 64 + of_char b mod 64"

definition cp3 :: "char \<Rightarrow> char \<Rightarrow> char \<Rightarrow> nat" where
  "cp3 a b c = (of_char a mod 16) * 4096 + (of_char b mod 64) * 64 + of_char c mod 64"

definition cp4 :: "char \<Rightarrow> char \<Rightarrow> char \<Rightarrow> char \<Rightarrow> nat" where
  "cp4 a b c d =
     (of_char a mod 8) * 262144 + (of_char b mod 64) * 4096 + (of_char c mod 64) * 64
       + of_char d mod 64"

definition surrogates :: "nat \<Rightarrow> nat list" where
  "surrogates cp = [55296 + (cp - 65536) div 1024, 56320 + (cp - 65536) mod 1024]"

fun utf16 :: "string \<Rightarrow> nat list" where
  "utf16 (a # b # c # d # s) =
     (if 240 \<le> (of_char a :: nat) then surrogates (cp4 a b c d) @ utf16 s
      else if 224 \<le> (of_char a :: nat) then cp3 a b c # utf16 (d # s)
      else if 192 \<le> (of_char a :: nat) then cp2 a b # utf16 (c # d # s)
      else of_char a # utf16 (b # c # d # s))"
| "utf16 [a, b, c] =
     (if 224 \<le> (of_char a :: nat) then [cp3 a b c]
      else if 192 \<le> (of_char a :: nat) then cp2 a b # utf16 [c]
      else of_char a # utf16 [b, c])"
| "utf16 [a, b] =
     (if 192 \<le> (of_char a :: nat) then [cp2 a b] else of_char a # utf16 [b])"
| "utf16 [a] = [of_char a]"
| "utf16 [] = []"

definition ascii :: "string \<Rightarrow> bool" where
  "ascii s = list_all (\<lambda>c. (of_char c :: nat) < 128) s"

text \<open>
  \<^verbatim>\<open>toUpperCase\<close>: on a string of ASCII characters it maps the letters a--z to A--Z
  and leaves the rest; on any other string it is the host's case mapping.
\<close>

definition ascii_upper :: "string \<Rightarrow> string" where
  "ascii_upper s =
     map (\<lambda>c. case map_of (zip ''abcdefghijklmnopqrstuvwxyz'' ''ABCDEFGHIJKLMNOPQRSTUVWXYZ'') c of
                None \<Rightarrow> c | Some upper \<Rightarrow> upper) s"

definition toUpperCase :: "platform \<Rightarrow> string \<Rightarrow> string" where
  "toUpperCase P s = (if ascii s then ascii_upper s else String_toUpperCase P s)"

text \<open>
  The characters of a string, each with the bytes of its encoding: the lead byte tells
  how many continuation bytes follow.
\<close>

definition continuation :: "char \<Rightarrow> nat" where
  "continuation c =
     (if 240 \<le> (of_char c :: nat) then 3 else if 224 \<le> (of_char c :: nat) then 2
      else if 192 \<le> (of_char c :: nat) then 1 else 0)"

function code_points :: "string \<Rightarrow> string list" where
  "code_points [] = []"
| "code_points (c # cs) = (c # take (continuation c) cs) # code_points (drop (continuation c) cs)"
  by pat_completeness auto
termination
  by (relation "measure length") auto

subsection \<open>Truthiness, conversions, property reads\<close>

text \<open>\<^verbatim>\<open>ToBoolean\<close>: what \<^verbatim>\<open>!v\<close>, \<^verbatim>\<open>v || d\<close> and \<^verbatim>\<open>if (v)\<close> test.\<close>

fun truthy :: "json \<Rightarrow> bool" where
  "truthy JUndefined = False"
| "truthy JNull = False"
| "truthy (JBool b) = b"
| "truthy (JNum x) = (x \<noteq> NaN \<and> x \<noteq> Fin 0)"
| "truthy (JStr s) = (s \<noteq> [])"
| "truthy (JArr xs) = True"
| "truthy (JObj kvs) = True"

text \<open>\<^verbatim>\<open>a || b\<close>.\<close>

definition js_or :: "json \<Rightarrow> json \<Rightarrow> json" where
  "js_or a b = (if truthy a then a else b)"

text \<open>\<^verbatim>\<open>Array.prototype.join\<close> on strings already converted.\<close>

fun join :: "string \<Rightarrow> string list \<Rightarrow> string" where
  "join sep [] = []"
| "join sep [x] = x"
| "join sep (x # y # ys) = x @ sep @ join sep (y # ys)"

text \<open>
  \<^verbatim>\<open>String(v)\<close>, also the conversion of a template literal, of a property key and of
  the left operand of \<^verbatim>\<open>+ '&'\<close>. An array joins its elements with a comma,
  \<^verbatim>\<open>null\<close> and \<^verbatim>\<open>undefined\<close> elements giving the empty string. An object
  parsed from JSON inherits \<^verbatim>\<open>toString\<close> and \<^verbatim>\<open>valueOf\<close>, and reads
  \<^verbatim>\<open>[object Object]\<close>, unless it has an own property \<^verbatim>\<open>toString\<close>: that
  property is not a function, the inherited \<^verbatim>\<open>valueOf\<close> (or an own one, which is
  no function either) gives no primitive, and the conversion throws a
  \<^verbatim>\<open>TypeError\<close>.
\<close>

fun ToString :: "platform \<Rightarrow> json \<Rightarrow> js_error + string" where
  "ToString P JUndefined = Inr ''undefined''"
| "ToString P JNull = Inr ''null''"
| "ToString P (JBool b) = Inr (if b then ''true'' else ''false'')"
| "ToString P (JNum x) = Inr (Number_toString P x)"
| "ToString P (JStr s) = Inr s"
| "ToString P (JArr xs) =
     try_bind
       (collect (map (\<lambda>x. if x = JNull \<or> x = JUndefined then Inr [] else ToString P x) xs))
       (\<lambda>texts. Inr (join '','' texts))"
| "ToString P (JObj kvs) =
     (if map_of kvs ''toString'' \<noteq> None then Inl TypeError else Inr ''[object Object]'')"

text \<open>
  \<^verbatim>\<open>ToNumber(v)\<close>, applied by the division operator to its left operand. An array
  or an object is first converted to a primitive, which is its string (or throws) as
  above.
\<close>

fun ToNumber :: "platform \<Rightarrow> json \<Rightarrow> js_error + jsnum" where
  "ToNumber P JUndefined = Inr NaN"
| "ToNumber P JNull = Inr (Fin 0)"
| "ToNumber P (JBool b) = Inr (if b then Fin 1 else Fin 0)"
| "ToNumber P (JNum x) = Inr x"
| "ToNumber P (JStr s) = Inr (StringToNumber P s)"
| "ToNumber P (JArr xs) = try_bind (ToString P (JArr xs)) (\<lambda>s. Inr (StringToNumber P s))"
| "ToNumber P (JObj kvs) = try_bind (ToString P (JObj kvs)) (\<lambda>s. Inr (StringToNumber P s))"

text \<open>
  \<^verbatim>\<open>parseFloat(v)\<close> parses \<^verbatim>\<open>String(v)\<close>. For a number the round trip through
  its decimal form returns the number itself, which the model takes as the definition in
  that case.
\<close>

fun parseFloat :: "platform \<Rightarrow> json \<Rightarrow> js_error + jsnum" where
  "parseFloat P (JNum x) = Inr x"
| "parseFloat P JUndefined = Inr NaN"
| "parseFloat P JNull = Inr NaN"
| "parseFloat P (JBool b) = Inr NaN"
| "parseFloat P v = try_bind (ToString P v) (\<lambda>s. Inr (parseFloat_str P s))"

text \<open>
  A property read \<^verbatim>\<open>v.k\<close> on a value parsed from JSON: a \<^verbatim>\<open>TypeError\<close> on
  \<^verbatim>\<open>null\<close> and \<^verbatim>\<open>undefined\<close>, the own property of an object, the length of an
  array or of a string (in code units), \<^verbatim>\<open>undefined\<close> otherwise. The worker reads the properties
  \<^verbatim>\<open>region\<close>, \<^verbatim>\<open>id\<close>, \<^verbatim>\<open>threshold\<close>, \<^verbatim>\<open>BusinessRegionId\<close>,
  \<^verbatim>\<open>Traffic\<close>, \<^verbatim>\<open>TrafficDetails\<close>, \<^verbatim>\<open>Instances\<close>, \<^verbatim>\<open>Instance\<close>,
  \<^verbatim>\<open>Status\<close>, \<^verbatim>\<open>length\<close> and \<^verbatim>\<open>0\<close> of such values; no prototype defines
  another of them, so that there is nothing inherited to find.
\<close>

fun get_prop :: "json \<Rightarrow> string \<Rightarrow> js_error + json" where
  "get_prop JUndefined k = Inl TypeError"
| "get_prop JNull k = Inl TypeError"
| "get_prop (JObj kvs) k = Inr (case map_of kvs k of None \<Rightarrow> JUndefined | Some v \<Rightarrow> v)"
| "get_prop (JArr xs) k = Inr (if k = ''length'' then JNum (Fin (real (length xs))) else JUndefined)"
| "get_prop (JStr s) k =
     Inr (if k = ''length'' then JNum (Fin (real (length (utf16 s)))) else JUndefined)"
| "get_prop v k = Inr JUndefined"

text \<open>
  The indexed read \<^verbatim>\<open>v[0]\<close> of a value that is neither null nor undefined. Of a
  string it is the first code unit, taken here as the first character (a character
  outside the basic plane starts with a lone surrogate, which is no value of the model);
  the worker reads only the property \<^verbatim>\<open>Status\<close> of it, which no string has.
\<close>

fun get_first :: "json \<Rightarrow> json" where
  "get_first (JArr xs) = (case xs of [] \<Rightarrow> JUndefined | x # _ \<Rightarrow> x)"
| "get_first (JStr s) = (case code_points s of [] \<Rightarrow> JUndefined | c # _ \<Rightarrow> JStr c)"
| "get_first (JObj kvs) = (case map_of kvs ''0'' of None \<Rightarrow> JUndefined | Some v \<Rightarrow> v)"
| "get_first v = JUndefined"

text \<open>
  The values a \<^verbatim>\<open>for (const x of v)\<close> loop visits: the elements of an array, the
  characters of a string (each a one-character string); any other value is not iterable.
\<close>

fun iterate :: "json \<Rightarrow> js_error + json list" where
  "iterate (JArr xs) = Inr xs"
| "iterate (JStr s) = Inr (map JStr (code_points s))"
| "iterate v = Inl TypeError"

section \<open>The signed request client\<close>

subsection \<open>Percent-encoding\<close>

definition hex_digit :: "nat \<Rightarrow> char" where
  "hex_digit n = ''0123456789ABCDEF'' ! (n mod 16)"

text \<open>The escape \<^verbatim>\<open>%HH\<close> of one byte, in upper-case hexadecimal.\<close>

definition pct :: "char \<Rightarrow> string" where
  "pct c = [CHR ''%'', hex_digit (of_char c div 16), hex_digit (of_char c mod 16)]"

definition is_alnum :: "char \<Rightarrow> bool" where
  "is_alnum c = (let n = (of_char c :: nat) in
     (48 \<le> n \<and> n \<le> 57) \<or> (65 \<le> n \<and> n \<le> 90) \<or> (97 \<le> n \<and> n \<le> 122))"

text \<open>
  \<^verbatim>\<open>encodeURIComponent\<close> leaves the letters, the digits and
  \<^verbatim>\<open>- _ . ! ~ * ' ( )\<close> as they are, and escapes every other byte of the UTF-8
  encoding.
\<close>

definition uriUnescaped :: "char \<Rightarrow> bool" where
  "uriUnescaped c = (is_alnum c \<or> c \<in> set [CHR ''-'', CHR ''_'', CHR ''.'', CHR ''!'',
     CHR ''~'', CHR ''*'', CHR 0x27, CHR ''('', CHR '')''])"

definition encodeURIComponent :: "string \<Rightarrow> string" where
  "encodeURIComponent s = concat (map (\<lambda>c. if uriUnescaped c then [c] else pct c) s)"

text \<open>
  \<^verbatim>\<open>s.replace(/pat/g, rep)\<close> for a pattern that is a literal string: the matches are
  found from left to right and do not overlap.
\<close>

function replaceAll :: "string \<Rightarrow> string \<Rightarrow> string \<Rightarrow> string" where
  "replaceAll pat rep [] = []"
| "replaceAll pat rep (c # cs) =
     (if pat \<noteq> [] \<and> take (length pat) (c # cs) = pat
      then rep @ replaceAll pat rep (drop (length pat) (c # cs))
      else c # replaceAll pat rep cs)"
  by pat_completeness auto
termination
  by (relation "measure (\<lambda>(pat, rep, s). length s)") auto

definition percentEncode :: "string \<Rightarrow> string" where
  "percentEncode str =
     replaceAll ''%7E'' ''~''
       (replaceAll ''*'' ''%2A''
         (replaceAll '')'' ''%29''
           (replaceAll ''('' ''%28''
             (replaceAll [CHR 0x27] ''%27''
               (replaceAll ''!'' ''%21'' (encodeURIComponent str))))))"

subsection \<open>Objects as parameter mappings\<close>

definition Object_keys :: "(string \<times> json) list \<Rightarrow> string list" where
  "Object_keys obj = map fst obj"

text \<open>The read \<^verbatim>\<open>params[key]\<close> of a key that \<^verbatim>\<open>Object.keys(params)\<close> lists.\<close>

definition obj_get :: "(string \<times> json) list \<Rightarrow> string \<Rightarrow> json" where
  "obj_get obj k = (case map_of obj k of None \<Rightarrow> JUndefined | Some v \<Rightarrow> v)"

text \<open>An assignment \<^verbatim>\<open>obj[k] = v\<close>: in place for a key the object has, appended otherwise.\<close>

fun obj_set :: "(string \<times> json) list \<Rightarrow> string \<Rightarrow> json \<Rightarrow> (string \<times> json) list" where
  "obj_set [] k v = [(k, v)]"
| "obj_set (p # ps) k v = (if fst p = k then (k, v) # ps else p # obj_set ps k v)"

text \<open>The object literal \<^verbatim>\<open>{...params, k1: v1, ...}\<close>.\<close>

definition obj_spread :: "(string \<times> json) list \<Rightarrow> (string \<times> json) list \<Rightarrow> (string \<times> json) list" where
  "obj_spread params props = foldl (\<lambda>obj (k, v). obj_set obj k v) params props"

subsection \<open>Signature\<close>

definition hmacSha1 :: "platform \<Rightarrow> string \<Rightarrow> string \<Rightarrow> string" where
  "hmacSha1 P key data = btoa P (hmac_sha1 P key data)"

text \<open>
  \<^verbatim>\<open>Object.keys(params).sort().map(...).join('&')\<close>: the keys in the order of their
  code units; \<^verbatim>\<open>String(params[key])\<close> may throw.
\<close>

definition canonicalQuery :: "platform \<Rightarrow> (string \<times> json) list \<Rightarrow> js_error + string" where
  "canonicalQuery P params =
     try_bind
       (collect (map (\<lambda>key. try_bind (ToString P (obj_get params key))
                       (\<lambda>text. Inr (percentEncode key @ ''='' @ percentEncode text)))
          (sort_key utf16 (Object_keys params))))
       (\<lambda>pairs. Inr (join ''&'' pairs))"

text \<open>The local \<open>stringToSign\<close> of \<open>sign\<close> (lines 423--431).\<close>

definition stringToSign :: "platform \<Rightarrow> (string \<times> json) list \<Rightarrow> string \<Rightarrow> js_error + string" where
  "stringToSign P params method =
     try_bind (canonicalQuery P params)
       (\<lambda>canonicalizedQueryString.
          Inr (toUpperCase P method @ ''&'' @ percentEncode ''/'' @ ''&''
                 @ percentEncode canonicalizedQueryString))"

definition sign :: "platform \<Rightarrow> (string \<times> json) list \<Rightarrow> json \<Rightarrow> string \<Rightarrow> js_error + string" where
  "sign P params accessKeySecret method =
     try_bind (stringToSign P params method)
       (\<lambda>text. try_bind (ToString P accessKeySecret)
          (\<lambda>secret. Inr (hmacSha1 P (secret @ ''&'') text)))"

subsection \<open>Requests\<close>

record env =
  ACCESS_KEY_ID :: json
  ACCESS_KEY_SECRET :: json
  ECS_INSTANCES_JSON :: json

text \<open>
  One entry of the run's trace: a call of \<^verbatim>\<open>fetch\<close>, with the domain and the action
  parameters \<open>requestAliyun\<close> was called with and the URL it requested.
\<close>

record request =
  req_domain :: string
  req_params :: "(string \<times> json) list"
  req_url :: string

text \<open>
  An asynchronous computation: from the trace so far to its outcome (\<open>Inl\<close> a thrown
  error) and the trace after it. \<open>io_bind\<close> is \<^verbatim>\<open>await\<close> followed by the rest of the
  function body; \<open>io_result\<close> is a step that issues no request.
\<close>

type_synonym 'a io = "request list \<Rightarrow> (js_error + 'a) \<times> request list"

definition io_bind :: "'a io \<Rightarrow> ('a \<Rightarrow> 'b io) \<Rightarrow> 'b io" where
  "io_bind m f tr = (case m tr of (Inl e, tr') \<Rightarrow> (Inl e, tr') | (Inr a, tr') \<Rightarrow> f a tr')"

definition io_return :: "'a \<Rightarrow> 'a io" where
  "io_return a tr = (Inr a, tr)"

definition io_result :: "js_error + 'a \<Rightarrow> 'a io" where
  "io_result r tr = (r, tr)"

text \<open>\<^verbatim>\<open>.replace(/\.\d{3}Z$/, 'Z')\<close> on the ISO timestamp.\<close>

definition is_digit :: "char \<Rightarrow> bool" where
  "is_digit c = (48 \<le> (of_char c :: nat) \<and> (of_char c :: nat) \<le> 57)"

definition strip_millis :: "string \<Rightarrow> string" where
  "strip_millis s = (case rev s of
       z # d3 # d2 # d1 # dot # r \<Rightarrow>
         if z = CHR ''Z'' \<and> is_digit d3 \<and> is_digit d2 \<and> is_digit d1 \<and> dot = CHR ''.''
         then rev r @ ''Z'' else s
     | _ \<Rightarrow> s)"

fun show_nat :: "nat \<Rightarrow> string" where
  "show_nat n = (if n < 10 then [hex_digit n] else show_nat (n div 10) @ [hex_digit (n mod 10)])"

declare show_nat.simps [simp del]

text \<open>
  The first half of \<open>requestAliyun\<close> (lines 388--408): the object \<open>finalParams\<close> and
  the URL of the \<open>n\<close>-th request of the run, with the authentication parameters and the
  signature in its query string. It throws when a parameter or the secret has no string.
\<close>

definition finalParams :: "platform \<Rightarrow> env \<Rightarrow> (string \<times> json) list \<Rightarrow> nat \<Rightarrow> (string \<times> json) list" where
  "finalParams P env params n =
     obj_spread params
       [(''AccessKeyId'', ACCESS_KEY_ID env),
        (''Format'', JStr ''JSON''),
        (''SignatureMethod'', JStr ''HMAC-SHA1''),
        (''SignatureVersion'', JStr ''1.0''),
        (''SignatureNonce'', JStr (randomUUID_at P n)),
        (''Timestamp'', JStr (strip_millis (toISOString_at P n)))]"

definition signed_url :: "platform \<Rightarrow> env \<Rightarrow> string \<Rightarrow> (string \<times> json) list \<Rightarrow> nat \<Rightarrow> js_error + string" where
  "signed_url P env domain params n =
     (let method = ''POST'' in
      try_bind (sign P (finalParams P env params n) (ACCESS_KEY_SECRET env) method)
        (\<lambda>signature.
           try_bind (canonicalQuery P
                       (obj_set (finalParams P env params n) ''Signature'' (JStr signature)))
             (\<lambda>queryString. Inr (''https://'' @ domain @ ''/?'' @ queryString))))"

text \<open>
  The second half (lines 410--419): the call of \<^verbatim>\<open>fetch\<close>, recorded in the trace, and
  the three outcomes: a rejected call, a response that is not \<open>ok\<close>, a body to parse.
\<close>

definition requestAliyun :: "platform \<Rightarrow> env \<Rightarrow> string \<Rightarrow> (string \<times> json) list \<Rightarrow> json io" where
  "requestAliyun P env domain params tr =
     (case signed_url P env domain params (length tr) of
        Inl e \<Rightarrow> (Inl e, tr)
      | Inr url \<Rightarrow>
         (let tr' = tr @ [\<lparr>req_domain = domain, req_params = params, req_url = url\<rparr>]
          in case fetch_at P (length tr) url of
               Rejected \<Rightarrow> (Inl FetchFailed, tr')
             | Response r_ok r_status r_statusText r_text \<Rightarrow>
                 if \<not> r_ok
                 then (Inl (Error (''Aliyun API Error: '' @ show_nat r_status @ '' ''
                         @ r_statusText @ '' - '' @ r_text)), tr')
                 else (case JSON_parse P r_text of
                         None \<Rightarrow> (Inl SyntaxError, tr')
                       | Some result \<Rightarrow> (Inr result, tr'))))"

section \<open>Traffic aggregator, state reader and actuator\<close>

subsection \<open>The object \<open>trafficByRegion\<close>\<close>

text \<open>
  \<open>trafficByRegion\<close> starts as \<^verbatim>\<open>{}\<close> (line 330), an object whose prototype is
  \<^verbatim>\<open>Object.prototype\<close>. Its own properties hold numbers, or the strings that
  \<^verbatim>\<open>+=\<close> builds when its left operand is no number. A read of a key it does not
  own finds the member of that name in \<^verbatim>\<open>Object.prototype\<close>: a built-in function,
  or for \<^verbatim>\<open>__proto__\<close> the prototype object itself.
\<close>

datatype tval = Num jsnum | Text string | Builtin string | Proto

type_synonym traffic_map = "string \<rightharpoonup> tval"

definition prototype_functions :: "string list" where
  "prototype_functions =
     [''constructor'', ''hasOwnProperty'', ''isPrototypeOf'', ''propertyIsEnumerable'',
      ''toLocaleString'', ''toString'', ''valueOf'', ''__defineGetter__'', ''__defineSetter__'',
      ''__lookupGetter__'', ''__lookupSetter__'']"

definition inherited :: "string \<Rightarrow> tval option" where
  "inherited key =
     (if key = ''__proto__'' then Some Proto
      else if key \<in> set prototype_functions then Some (Builtin key)
      else None)"

text \<open>The read \<^verbatim>\<open>trafficByRegion[key]\<close>; \<open>None\<close> is \<^verbatim>\<open>undefined\<close>.\<close>

definition tbr_read :: "traffic_map \<Rightarrow> string \<Rightarrow> tval option" where
  "tbr_read trafficByRegion key =
     (case trafficByRegion key of None \<Rightarrow> inherited key | Some v \<Rightarrow> Some v)"

text \<open>
  The assignment \<^verbatim>\<open>trafficByRegion[key] = v\<close> of a number or a string: it makes an
  own property, except for \<^verbatim>\<open>__proto__\<close>, whose setter ignores a primitive.
\<close>

definition tbr_write :: "traffic_map \<Rightarrow> string \<Rightarrow> tval \<Rightarrow> traffic_map" where
  "tbr_write trafficByRegion key v =
     (if key = ''__proto__'' then trafficByRegion else trafficByRegion(key \<mapsto> v))"

fun held_truthy :: "tval option \<Rightarrow> bool" where
  "held_truthy None = False"
| "held_truthy (Some (Num x)) = (x \<noteq> NaN \<and> x \<noteq> Fin 0)"
| "held_truthy (Some (Text s)) = (s \<noteq> [])"
| "held_truthy (Some (Builtin name)) = True"
| "held_truthy (Some Proto) = True"

text \<open>
  \<^verbatim>\<open>held + x\<close> for a number \<open>x\<close>: the sum of two numbers; a string, a function or an
  object on the left is converted to its text and the number is appended to it.
\<close>

fun js_plus :: "platform \<Rightarrow> tval option \<Rightarrow> jsnum \<Rightarrow> tval" where
  "js_plus P None x = Num NaN"
| "js_plus P (Some (Num a)) x = Num (jsnum_add P a x)"
| "js_plus P (Some (Text s)) x = Text (s @ Number_toString P x)"
| "js_plus P (Some (Builtin name)) x = Text (Function_toString P name @ Number_toString P x)"
| "js_plus P (Some Proto) x = Text (''[object Object]'' @ Number_toString P x)"

text \<open>\<^verbatim>\<open>v.toFixed(2)\<close> is a method of numbers only; its text goes to the console.\<close>

fun toFixed :: "tval \<Rightarrow> js_error + jsnum" where
  "toFixed (Num x) = Inr x"
| "toFixed v = Inl TypeError"

subsection \<open>\<open>getTrafficByRegion\<close>\<close>

text \<open>The body of the loop over the traffic detail records (lines 332--343).\<close>

definition traffic_step :: "platform \<Rightarrow> traffic_map \<Rightarrow> json \<Rightarrow> js_error + traffic_map" where
  "traffic_step P trafficByRegion detail =
     try_bind (get_prop detail ''BusinessRegionId'') (\<lambda>region.
     try_bind (get_prop detail ''Traffic'') (\<lambda>t.
       (let traffic = js_or t (JNum (Fin 0)) in
        if truthy region then
          try_bind (ToString P region) (\<lambda>key.
            (let tbr0 = (if \<not> held_truthy (tbr_read trafficByRegion key)
                         then tbr_write trafficByRegion key (Num (Fin 0)) else trafficByRegion)
             in try_bind (ToNumber P traffic) (\<lambda>bytes.
                  Inr (tbr_write tbr0 key
                         (js_plus P (tbr_read tbr0 key) (jsnum_div_pos P bytes (1024 ^ 3)))))))
        else Inr trafficByRegion)))"

fun traffic_loop :: "platform \<Rightarrow> traffic_map \<Rightarrow> json list \<Rightarrow> js_error + traffic_map" where
  "traffic_loop P trafficByRegion [] = Inr trafficByRegion"
| "traffic_loop P trafficByRegion (detail # details) =
     try_bind (traffic_step P trafficByRegion detail) (\<lambda>tbr'. traffic_loop P tbr' details)"

text \<open>What \<open>getTrafficByRegion\<close> does with the parsed result of its request.\<close>

definition aggregate :: "platform \<Rightarrow> json \<Rightarrow> js_error + traffic_map" where
  "aggregate P result =
     try_bind (get_prop result ''TrafficDetails'') (\<lambda>td.
     try_bind (iterate (js_or td (JArr []))) (\<lambda>trafficDetails.
       traffic_loop P Map.empty trafficDetails))"

definition traffic_params :: "(string \<times> json) list" where
  "traffic_params =
     [(''Action'', JStr ''ListCdtInternetTraffic''), (''Version'', JStr ''2021-08-13'')]"

definition getTrafficByRegion :: "platform \<Rightarrow> env \<Rightarrow> traffic_map io" where
  "getTrafficByRegion P env =
     io_bind (requestAliyun P env ''cdt.aliyuncs.com'' traffic_params)
       (\<lambda>result. io_result (aggregate P result))"

subsection \<open>\<open>getEcsStatus\<close>, \<open>startEcsInstance\<close>, \<open>stopEcsInstance\<close>\<close>

text \<open>
  What \<open>getEcsStatus\<close> does with the parsed result of its request (lines 357--361). The
  message of the error is a template literal: converting the identifiers may throw in
  its place.
\<close>

definition extract_status :: "platform \<Rightarrow> json \<Rightarrow> json \<Rightarrow> json \<Rightarrow> js_error + json" where
  "extract_status P instanceId regionId result =
     try_bind (get_prop result ''Instances'') (\<lambda>insts.
     try_bind (if insts = JNull \<or> insts = JUndefined then Inr JUndefined
               else get_prop insts ''Instance'') (\<lambda>i.
       (let instances = js_or i (JArr []) in
        try_bind (get_prop instances ''length'') (\<lambda>len.
          if len = JNum (Fin 0)
          then try_bind (ToString P instanceId) (\<lambda>instance_text.
               try_bind (ToString P regionId) (\<lambda>region_text.
                 Inl (Error (''Instance '' @ instance_text @ '' not found in '' @ region_text))))
          else get_prop (get_first instances) ''Status''))))"

text \<open>The \<open>params\<close> objects of the three instance operations.\<close>

definition describe_params :: "platform \<Rightarrow> json \<Rightarrow> json \<Rightarrow> (string \<times> json) list" where
  "describe_params P instanceId regionId =
     [(''Action'', JStr ''DescribeInstances''), (''Version'', JStr ''2014-05-26''),
      (''RegionId'', regionId),
      (''InstanceIds'', JStr (JSON_stringify P (JArr [instanceId])))]"

definition start_params :: "platform \<Rightarrow> json \<Rightarrow> json \<Rightarrow> (string \<times> json) list" where
  "start_params P instanceId regionId =
     [(''Action'', JStr ''StartInstances''), (''Version'', JStr ''2014-05-26''),
      (''RegionId'', regionId),
      (''InstanceIds'', JStr (JSON_stringify P (JArr [instanceId])))]"

definition stop_params :: "platform \<Rightarrow> json \<Rightarrow> json \<Rightarrow> (string \<times> json) list" where
  "stop_params P instanceId regionId =
     [(''Action'', JStr ''StopInstances''), (''Version'', JStr ''2014-05-26''),
      (''RegionId'', regionId),
      (''InstanceIds'', JStr (JSON_stringify P (JArr [instanceId]))),
      (''ForceStop'', JStr ''false'')]"

text \<open>The domain \<^verbatim>\<open>ecs.${regionId}.aliyuncs.com\<close> of a region whose text is known.\<close>

definition ecs_domain :: "string \<Rightarrow> string" where
  "ecs_domain region_text = ''ecs.'' @ region_text @ ''.aliyuncs.com''"

definition getEcsStatus :: "platform \<Rightarrow> env \<Rightarrow> json \<Rightarrow> json \<Rightarrow> json io" where
  "getEcsStatus P env instanceId regionId =
     io_bind (io_result (ToString P regionId)) (\<lambda>region_text.
     io_bind (requestAliyun P env (ecs_domain region_text)
                (describe_params P instanceId regionId))
       (\<lambda>result. io_result (extract_status P instanceId regionId result)))"

definition startEcsInstance :: "platform \<Rightarrow> env \<Rightarrow> json \<Rightarrow> json \<Rightarrow> json io" where
  "startEcsInstance P env instanceId regionId =
     io_bind (io_result (ToString P regionId)) (\<lambda>region_text.
       requestAliyun P env (ecs_domain region_text) (start_params P instanceId regionId))"

definition stopEcsInstance :: "platform \<Rightarrow> env \<Rightarrow> json \<Rightarrow> json \<Rightarrow> json io" where
  "stopEcsInstance P env instanceId regionId =
     io_bind (io_result (ToString P regionId)) (\<lambda>region_text.
       requestAliyun P env (ecs_domain region_text) (stop_params P instanceId regionId))"

section \<open>The orchestrator\<close>

text \<open>
  \<^verbatim>\<open>trafficByRegion[regionId] || 0\<close> (line 286): converting \<open>regionId\<close> to a
  property key may throw, and the value read may be inherited.
\<close>

definition regionTrafficGB :: "platform \<Rightarrow> traffic_map \<Rightarrow> json \<Rightarrow> js_error + tval" where
  "regionTrafficGB P trafficByRegion regionId =
     try_bind (ToString P regionId) (\<lambda>key.
       Inr (case tbr_read trafficByRegion key of
              None \<Rightarrow> Num (Fin 0)
            | Some v \<Rightarrow> if held_truthy (Some v) then v else Num (Fin 0)))"

text \<open>
  A message for the console, a template literal over the given values: its text is not
  part of the model, but converting a value may throw.
\<close>

definition log_values :: "platform \<Rightarrow> json list \<Rightarrow> js_error + unit" where
  "log_values P vs = try_bind (collect (map (ToString P) vs)) (\<lambda>texts. Inr ())"

text \<open>
  The control logic of one instance once its status is known (lines 293--307); each of
  its four messages names the instance.
\<close>

definition control :: "platform \<Rightarrow> env \<Rightarrow> jsnum \<Rightarrow> jsnum \<Rightarrow> json \<Rightarrow> json \<Rightarrow> json \<Rightarrow> unit io" where
  "control P env regionTraffic threshold instanceId regionId instanceStatus =
     (if jsnum_lt regionTraffic threshold then
        (if instanceStatus \<noteq> JStr ''Running'' \<and> instanceStatus \<noteq> JStr ''Starting''
         then io_bind (io_result (log_values P [instanceId])) (\<lambda>_.
              io_bind (startEcsInstance P env instanceId regionId) (\<lambda>_. io_return ()))
         else io_result (log_values P [instanceId]))
      else
        (if instanceStatus \<noteq> JStr ''Stopped'' \<and> instanceStatus \<noteq> JStr ''Stopping''
         then io_bind (io_result (log_values P [instanceId])) (\<lambda>_.
              io_bind (stopEcsInstance P env instanceId regionId) (\<lambda>_. io_return ()))
         else io_result (log_values P [instanceId])))"

text \<open>
  The body of the loop over the configured instances (lines 276--307); \<open>continue\<close> and
  the end of the body both return normally, a thrown error leaves the loop. Line 287
  writes the traffic with \<^verbatim>\<open>toFixed\<close>, line 290 writes the instance, the region and
  the status.
\<close>

definition instance_step :: "platform \<Rightarrow> env \<Rightarrow> traffic_map \<Rightarrow> json \<Rightarrow> unit io" where
  "instance_step P env trafficByRegion inst =
     io_bind (io_result (get_prop inst ''region'')) (\<lambda>regionId.
     io_bind (io_result (get_prop inst ''id'')) (\<lambda>instanceId.
     io_bind (io_result (get_prop inst ''threshold'')) (\<lambda>th.
     io_bind (io_result (parseFloat P th)) (\<lambda>threshold.
       if \<not> truthy regionId \<or> \<not> truthy instanceId \<or> isNaN threshold
       then io_return ()
       else
         io_bind (io_result (regionTrafficGB P trafficByRegion regionId)) (\<lambda>held.
         io_bind (io_result (toFixed held)) (\<lambda>regionTraffic.
         io_bind (getEcsStatus P env instanceId regionId) (\<lambda>instanceStatus.
         io_bind (io_result (log_values P [instanceId, regionId, instanceStatus])) (\<lambda>_.
           control P env regionTraffic threshold instanceId regionId instanceStatus))))))))"

fun instances_loop :: "platform \<Rightarrow> env \<Rightarrow> traffic_map \<Rightarrow> json list \<Rightarrow> unit io" where
  "instances_loop P env trafficByRegion [] = io_return ()"
| "instances_loop P env trafficByRegion (inst # rest) =
     io_bind (instance_step P env trafficByRegion inst)
       (\<lambda>_. instances_loop P env trafficByRegion rest)"

text \<open>The body of the second \<^verbatim>\<open>try\<close> block of \<open>handleSchedule\<close> (lines 270--308).\<close>

definition run_instances :: "platform \<Rightarrow> env \<Rightarrow> json \<Rightarrow> unit io" where
  "run_instances P env instances =
     io_bind (getTrafficByRegion P env) (\<lambda>trafficByRegion.
     io_bind (io_result (iterate instances)) (\<lambda>insts.
       instances_loop P env trafficByRegion insts))"

text \<open>
  \<^verbatim>\<open>JSON.parse(ECS_INSTANCES_JSON)\<close> inside the first \<^verbatim>\<open>try\<close> block: it throws
  when its argument has no string or when the string is no JSON text.
\<close>

definition parse_instances :: "platform \<Rightarrow> env \<Rightarrow> js_error + json" where
  "parse_instances P env =
     try_bind (ToString P (ECS_INSTANCES_JSON env)) (\<lambda>text.
       case JSON_parse P text of None \<Rightarrow> Inl SyntaxError | Some v \<Rightarrow> Inr v)"

text \<open>
  \<open>handleSchedule\<close>: the two early returns, then the \<^verbatim>\<open>try\<close> block, whose
  \<^verbatim>\<open>catch\<close> reports the error on the console and returns.
\<close>

definition handleSchedule :: "platform \<Rightarrow> env \<Rightarrow> unit io" where
  "handleSchedule P env tr =
     (if \<not> truthy (ACCESS_KEY_ID env) \<or> \<not> truthy (ACCESS_KEY_SECRET env)
         \<or> \<not> truthy (ECS_INSTANCES_JSON env)
      then (Inr (), tr)
      else (case parse_instances P env of
              Inl e \<Rightarrow> (Inr (), tr)
            | Inr instances \<Rightarrow>
                (case run_instances P env instances tr of
                   (Inl error, tr') \<Rightarrow> (Inr (), tr')
                 | (Inr u, tr') \<Rightarrow> (Inr (), tr'))))"

text \<open>The two entry points of the worker; the HTTP one answers after the run.\<close>

record http_response =
  resp_body :: string
  resp_status :: nat

definition scheduled :: "platform \<Rightarrow> env \<Rightarrow> unit io" where
  "scheduled P env = handleSchedule P env"

definition fetch :: "platform \<Rightarrow> json \<Rightarrow> env \<Rightarrow> http_response io" where
  "fetch P request env =
     io_bind (handleSchedule P env)
       (\<lambda>_. io_return \<lparr>resp_body = ''Executed successfully'', resp_status = 200\<rparr>)"

section \<open>Reading the trace\<close>

text \<open>What a request asks: the domain and the action parameters it was made with.\<close>

definition call_of :: "request \<Rightarrow> string \<times> (string \<times> json) list" where
  "call_of r = (req_domain r, req_params r)"

definition action_of :: "request \<Rightarrow> json" where
  "action_of r = obj_get (req_params r) ''Action''"

text \<open>An actuation call is a request whose action starts or stops instances.\<close>

definition is_actuation :: "request \<Rightarrow> bool" where
  "is_actuation r = (action_of r = JStr ''StartInstances'' \<or> action_of r = JStr ''StopInstances'')"

text \<open>
  The instance a request is about, by its \<^verbatim>\<open>InstanceIds\<close> parameter, and the
  identifier a config entry names (\<^verbatim>\<open>undefined\<close> for an entry that has none).
\<close>

definition targets :: "platform \<Rightarrow> json \<Rightarrow> request \<Rightarrow> bool" where
  "targets P instanceId r =
     (obj_get (req_params r) ''InstanceIds'' = JStr (JSON_stringify P (JArr [instanceId])))"

definition config_id :: "json \<Rightarrow> json" where
  "config_id inst = (case get_prop inst ''id'' of Inl e \<Rightarrow> JUndefined | Inr i \<Rightarrow> i)"

text \<open>
  The figure \<^verbatim>\<open>held || 0\<close> when the value held for the region is a number or is
  absent: the number, and 0 in place of an absent value and of NaN.
\<close>

definition effective :: "jsnum option \<Rightarrow> jsnum" where
  "effective held = (case held of None \<Rightarrow> Fin 0 | Some v \<Rightarrow> if v = NaN then Fin 0 else v)"

text \<open>The requests a computation adds to the trace \<open>tr\<close> it starts from.\<close>

definition issued :: "'a io \<Rightarrow> request list \<Rightarrow> request list" where
  "issued m tr = drop (length tr) (snd (m tr))"


text \<open>
  The traffic detail records a traffic-listing response holds: the array at
  \<^verbatim>\<open>TrafficDetails\<close>, empty when the property is absent or null.
\<close>

fun listed_details :: "json \<Rightarrow> json list option" where
  "listed_details (JObj kvs) =
     (case map_of kvs ''TrafficDetails'' of
        None \<Rightarrow> Some []
      | Some JNull \<Rightarrow> Some []
      | Some (JArr ds) \<Rightarrow> Some ds
      | Some v \<Rightarrow> None)"
| "listed_details v = None"

section \<open>The aggregate as the specification words it\<close>

text \<open>
  A record carries the region identifier \<open>k\<close> when its \<^verbatim>\<open>BusinessRegionId\<close> is
  present, not empty, and reads \<open>k\<close>; its byte count is its \<^verbatim>\<open>Traffic\<close> when that is
  a finite number, and 0 when it is absent or not a number. The total of a region is the
  sum of the byte counts of the records that carry it, divided by \<open>1024\<^sup>3\<close>; a
  region no record carries has no entry.
\<close>

definition region_of :: "platform \<Rightarrow> json \<Rightarrow> string option" where
  "region_of P d =
     (case get_prop d ''BusinessRegionId'' of
        Inl e \<Rightarrow> None
      | Inr v \<Rightarrow> if truthy v then (case ToString P v of Inl e \<Rightarrow> None | Inr k \<Rightarrow> Some k)
                 else None)"

definition claimed_bytes :: "json \<Rightarrow> real" where
  "claimed_bytes d = (case get_prop d ''Traffic'' of Inr (JNum (Fin x)) \<Rightarrow> x | _ \<Rightarrow> 0)"

definition region_totals :: "platform \<Rightarrow> json list \<Rightarrow> traffic_map" where
  "region_totals P details k =
     (case filter (\<lambda>d. region_of P d = Some k) details of
        [] \<Rightarrow> None
      | ds \<Rightarrow> Some (Num (Fin (sum_list (map claimed_bytes ds) / 1024 ^ 3))))"

text \<open>
  A record with a plain byte count: it is not null, and its \<^verbatim>\<open>Traffic\<close> is a finite
  number, or is absent or another falsy value (null, false, NaN, the empty string). A
  record with a plain region: its \<^verbatim>\<open>BusinessRegionId\<close> is absent or empty, or it has
  a string that is not the name of a member of \<^verbatim>\<open>Object.prototype\<close>.
\<close>

definition plain_bytes :: "json \<Rightarrow> bool" where
  "plain_bytes d =
     (case get_prop d ''Traffic'' of
        Inl e \<Rightarrow> False
      | Inr (JNum (Fin x)) \<Rightarrow> True
      | Inr t \<Rightarrow> \<not> truthy t)"

definition plain_region :: "platform \<Rightarrow> json \<Rightarrow> bool" where
  "plain_region P d =
     (case get_prop d ''BusinessRegionId'' of
        Inl e \<Rightarrow> False
      | Inr v \<Rightarrow>
          if truthy v
          then (case ToString P v of Inl e \<Rightarrow> False | Inr k \<Rightarrow> inherited k = None)
          else True)"

text \<open>
  The loop of the aggregator seen on finite totals: one record adds its gigabytes to the
  total of its region. \<open>exact_sums\<close> says that along the list no division and no
  addition of the loop is rounded: the quotient of each byte count and each new total are
  doubles.
\<close>

definition acc_step :: "platform \<Rightarrow> (string \<rightharpoonup> real) \<Rightarrow> json \<Rightarrow> (string \<rightharpoonup> real)" where
  "acc_step P m d =
     (case region_of P d of
        None \<Rightarrow> m
      | Some k \<Rightarrow> m(k \<mapsto> (case m k of None \<Rightarrow> 0 | Some a \<Rightarrow> a) + claimed_bytes d / 1024 ^ 3))"

fun exact_sums :: "platform \<Rightarrow> (string \<rightharpoonup> real) \<Rightarrow> json list \<Rightarrow> bool" where
  "exact_sums P m [] = True"
| "exact_sums P m (d # ds) =
     ((case region_of P d of
         None \<Rightarrow> True
       | Some k \<Rightarrow>
           round_double P (claimed_bytes d / 1024 ^ 3) = Fin (claimed_bytes d / 1024 ^ 3)
           \<and> round_double P ((case m k of None \<Rightarrow> 0 | Some a \<Rightarrow> a) + claimed_bytes d / 1024 ^ 3)
               = Fin ((case m k of None \<Rightarrow> 0 | Some a \<Rightarrow> a) + claimed_bytes d / 1024 ^ 3))
      \<and> exact_sums P (acc_step P m d) ds)"

section \<open>The signature as the specification words it\<close>








section \<open>A concrete host\<close>

text \<open>
  A host to run the model on: \<^verbatim>\<open>JSON.parse\<close> is a table of the texts it knows (any
  other text is a syntax error), the provider answers the \<open>n\<close>-th request with the \<open>n\<close>-th
  response of a list and rejects the calls after it, the conversions cover the decimal
  naturals, the arithmetic is exact (as double arithmetic is wherever the exact result
  is a double, which is the case in every run below) and the signature is a fixed text.
\<close>

definition demo_number :: "string \<Rightarrow> jsnum" where
  "demo_number s =
     (if s \<noteq> [] \<and> list_all is_digit s
      then Fin (real (foldl (\<lambda>a c. 10 * a + (of_char c - 48)) (0::nat) s)) else NaN)"

definition demo_stringify :: "json \<Rightarrow> string" where
  "demo_stringify v =
     (case v of JArr [JStr s] \<Rightarrow> ''['' @ [CHR 0x22] @ s @ [CHR 0x22] @ '']'' | _ \<Rightarrow> ''null'')"

definition demo_platform :: "(string \<times> json) list \<Rightarrow> response list \<Rightarrow> platform" where
  "demo_platform texts responses =
     \<lparr> JSON_parse = map_of texts,
       JSON_stringify = demo_stringify,
       Number_toString = (\<lambda>x. case x of NaN \<Rightarrow> ''NaN'' | NInf \<Rightarrow> ''-Infinity''
                           | PInf \<Rightarrow> ''Infinity'' | Fin a \<Rightarrow> show_nat (nat \<lfloor>a\<rfloor>)),
       Function_toString = (\<lambda>name. ''function ''
                              @ (if name = ''constructor'' then ''Object'' else name)
                              @ ''() { [native code] }''),
       StringToNumber = (\<lambda>s. if s = [] then Fin 0 else demo_number s),
       parseFloat_str = demo_number,
       String_toUpperCase = (\<lambda>s. s),
       round_double = Fin,
       randomUUID_at = (\<lambda>n. ''00000000-0000-4000-8000-00000000000'' @ show_nat (n mod 10)),
       toISOString_at = (\<lambda>n. ''2026-01-01T00:00:00.000Z''),
       hmac_sha1 = (\<lambda>key data. ''0123456789abcdefghij''),
       btoa = (\<lambda>bytes. ''MDEyMzQ1Njc4OWFiY2RlZmdoaWo=''),
       fetch_at = (\<lambda>n url. if n < length responses then responses ! n else Rejected) \<rparr>"




definition demo_env :: env where
  "demo_env = \<lparr> ACCESS_KEY_ID = JStr ''LTAI-demo'', ACCESS_KEY_SECRET = JStr ''secret'',
                ECS_INSTANCES_JSON = JStr ''configs'' \<rparr>"

text \<open>
  Two instances of one region with the thresholds 200 and 10, and the texts of the
  provider's answers: the traffic listing (50 GB for the region), the description of an
  instance in a given state, of no instance, and the acknowledgement of an actuation.
  The text \<open>twice\<close> is a list that names the instance i-a in two entries.
\<close>

definition cfg :: "string \<Rightarrow> string \<Rightarrow> real \<Rightarrow> json" where
  "cfg region_name instance_name limit =
     JObj [(''region'', JStr region_name), (''id'', JStr instance_name),
           (''threshold'', JNum (Fin limit))]"

definition described :: "string \<Rightarrow> json" where
  "described state =
     JObj [(''Instances'', JObj [(''Instance'', JArr [JObj [(''Status'', JStr state)]])])]"

definition detail :: "string \<Rightarrow> json \<Rightarrow> json" where
  "detail region_name bytes = JObj [(''BusinessRegionId'', JStr region_name), (''Traffic'', bytes)]"

definition demo_texts :: "(string \<times> json) list" where
  "demo_texts =
     [(''configs'', JArr [cfg ''cn-hongkong'' ''i-a'' 200, cfg ''cn-hongkong'' ''i-b'' 10]),
      (''twice'', JArr [cfg ''cn-hongkong'' ''i-a'' 200, cfg ''cn-hongkong'' ''i-a'' 10]),
      (''traffic'', JObj [(''TrafficDetails'',
          JArr [detail ''cn-hongkong'' (JNum (Fin (50 * 1024 ^ 3)))])]),
      (''running'', described ''Running''),
      (''stopped'', described ''Stopped''),
      (''none'', JObj [(''Instances'', JObj [(''Instance'', JArr [])])]),
      (''ack'', JObj [(''RequestId'', JStr ''1'')])]"

text \<open>
  A listing with two records of one region, a record of another region, a record with no
  region and a record with no byte count.
\<close>

definition mixed_details :: "json list" where
  "mixed_details =
     [detail ''cn-hongkong'' (JNum (Fin (30 * 1024 ^ 3))),
      JObj [(''Traffic'', JNum (Fin (5 * 1024 ^ 3)))],
      detail ''cn-shenzhen'' (JNum (Fin (7 * 1024 ^ 3))),
      detail ''cn-hongkong'' (JNum (Fin (20 * 1024 ^ 3))),
      JObj [(''BusinessRegionId'', JStr ''cn-shenzhen'')]]"

definition answer :: "string \<Rightarrow> response" where
  "answer text = Response True 200 ''OK'' text"

definition demo_traffic :: traffic_map where
  "demo_traffic = [''cn-hongkong'' \<mapsto> Num (Fin 50)]"

text \<open>
  Hosts for the runs below: one whose first answers describe a stopped instance, one a
  running instance, and one that lists the traffic and then finds no instance.
\<close>

abbreviation host_stopped :: platform where
  "host_stopped \<equiv> demo_platform demo_texts [answer ''stopped'', answer ''ack'']"

abbreviation host_running :: platform where
  "host_running \<equiv> demo_platform demo_texts [answer ''running'', answer ''ack'']"

abbreviation host_not_found :: platform where
  "host_not_found \<equiv> demo_platform demo_texts
     [answer ''traffic'', answer ''none'', answer ''running'', answer ''ack'']"

text \<open>
  A host for the list that names i-a twice: it lists the traffic, finds i-a stopped,
  acknowledges the start, then finds i-a running and acknowledges the stop.
\<close>

abbreviation host_twice :: platform where
  "host_twice \<equiv> demo_platform demo_texts
     [answer ''traffic'', answer ''stopped'', answer ''ack'', answer ''running'', answer ''ack'']"

text \<open>A host whose traffic listing holds the five records of \<open>mixed_details\<close>.\<close>

abbreviation host_listing :: platform where
  "host_listing \<equiv> demo_platform [(''listing'', JObj [(''TrafficDetails'', JArr mixed_details)])]
     [answer ''listing'']"


section \<open>Requests that can be signed\<close>

text \<open>
  Signing converts every value of the parameters and the secret to a string, and a
  conversion may throw. \<open>values_ok\<close> says that every value of an object has a string;
  \<open>signable\<close> is what this comes to for the requests about an instance: the region, the
  access-key identifier and the secret have strings.
\<close>

definition values_ok :: "platform \<Rightarrow> (string \<times> json) list \<Rightarrow> bool" where
  "values_ok P obj = (\<forall>k \<in> set (Object_keys obj). \<exists>s. ToString P (obj_get obj k) = Inr s)"

definition signable :: "platform \<Rightarrow> env \<Rightarrow> json \<Rightarrow> bool" where
  "signable P env regionId =
     ((\<exists>a. ToString P regionId = Inr a) \<and> (\<exists>b. ToString P (ACCESS_KEY_ID env) = Inr b)
      \<and> (\<exists>c. ToString P (ACCESS_KEY_SECRET env) = Inr c))"

section \<open>Facts about requests and the trace\<close>

lemma demo_fields [simp]:
  "JSON_parse (demo_platform texts rs) = map_of texts"
  "JSON_stringify (demo_platform texts rs) = demo_stringify"
  "StringToNumber (demo_platform texts rs) = (\<lambda>s. if s = [] then Fin 0 else demo_number s)"
  "parseFloat_str (demo_platform texts rs) = demo_number"
  "round_double (demo_platform texts rs) = Fin"
  "String_toUpperCase (demo_platform texts rs) = (\<lambda>s. s)"
  "Function_toString (demo_platform texts rs)
     = (\<lambda>name. ''function '' @ (if name = ''constructor'' then ''Object'' else name)
                  @ ''() { [native code] }'')"
  "Number_toString (demo_platform texts rs)
     = (\<lambda>x. case x of NaN \<Rightarrow> ''NaN'' | NInf \<Rightarrow> ''-Infinity''
                 | PInf \<Rightarrow> ''Infinity'' | Fin a \<Rightarrow> show_nat (nat \<lfloor>a\<rfloor>))"
  "hmac_sha1 (demo_platform texts rs) = (\<lambda>key data. ''0123456789abcdefghij'')"
  "btoa (demo_platform texts rs) = (\<lambda>bytes. ''MDEyMzQ1Njc4OWFiY2RlZmdoaWo='')"
  "fetch_at (demo_platform texts rs) = (\<lambda>n url. if n < length rs then rs ! n else Rejected)"
  by (simp_all add: demo_platform_def)

lemma try_bind_simps [simp]:
  "try_bind (Inl e) f = Inl e"
  "try_bind (Inr a) f = f a"
  by (simp_all add: try_bind_def)

lemma io_bind_result [simp]:
  "io_bind (io_result (Inl e)) f tr = (Inl e, tr)"
  "io_bind (io_result (Inr a)) f tr = f a tr"
  by (simp_all add: io_bind_def io_result_def)

text \<open>A call of \<open>requestAliyun\<close> adds its request to the trace, unless signing throws.\<close>

lemma requestAliyun_snd:
  "snd (requestAliyun P env d ps tr) =
     tr @ (case signed_url P env d ps (length tr) of
             Inl e \<Rightarrow> []
           | Inr u \<Rightarrow> [\<lparr>req_domain = d, req_params = ps, req_url = u\<rparr>])"
  by (simp add: requestAliyun_def Let_def split: sum.splits response.splits option.splits)

lemma requestAliyun_new:
  "\<exists>new. snd (requestAliyun P env d ps tr) = tr @ new \<and> length new \<le> 1
         \<and> (\<forall>r \<in> set new. call_of r = (d, ps))"
  by (cases "signed_url P env d ps (length tr)") (simp_all add: requestAliyun_snd call_of_def)

lemma io_bind_snd_result:
  "snd (io_bind m (\<lambda>a. io_result (f a)) tr) = snd (m tr)"
  by (cases "m tr") (auto simp add: io_bind_def io_result_def split: sum.splits)

lemma io_bind_snd_return:
  "snd (io_bind m (\<lambda>a. io_return (f a)) tr) = snd (m tr)"
  by (cases "m tr") (auto simp add: io_bind_def io_return_def split: sum.splits)

lemma act_describe: "\<not> is_actuation \<lparr>req_domain = d, req_params = describe_params P i r, req_url = u\<rparr>"
  by (simp add: is_actuation_def action_of_def describe_params_def obj_get_def)

lemma getEcsStatus_new:
  "\<exists>new. snd (getEcsStatus P env i r tr) = tr @ new \<and> filter is_actuation new = []"
proof (cases "ToString P r")
  case (Inl e)
  then show ?thesis by (simp add: getEcsStatus_def)
next
  case (Inr rtext)
  have "snd (getEcsStatus P env i r tr)
          = snd (requestAliyun P env (ecs_domain rtext) (describe_params P i r) tr)"
    by (simp add: getEcsStatus_def Inr io_bind_snd_result)
  then show ?thesis
    by (cases "signed_url P env (ecs_domain rtext) (describe_params P i r) (length tr)")
       (simp_all add: requestAliyun_snd act_describe)
qed

lemma start_new:
  "\<exists>new. snd (startEcsInstance P env i r tr) = tr @ new \<and> length new \<le> 1
         \<and> (\<forall>q \<in> set new. targets P i q)"
proof (cases "ToString P r")
  case (Inl e)
  then show ?thesis by (simp add: startEcsInstance_def)
next
  case (Inr rtext)
  then show ?thesis
    by (cases "signed_url P env (ecs_domain rtext) (start_params P i r) (length tr)")
       (simp_all add: startEcsInstance_def requestAliyun_snd targets_def start_params_def obj_get_def)
qed

lemma stop_new:
  "\<exists>new. snd (stopEcsInstance P env i r tr) = tr @ new \<and> length new \<le> 1
         \<and> (\<forall>q \<in> set new. targets P i q)"
proof (cases "ToString P r")
  case (Inl e)
  then show ?thesis by (simp add: stopEcsInstance_def)
next
  case (Inr rtext)
  then show ?thesis
    by (cases "signed_url P env (ecs_domain rtext) (stop_params P i r) (length tr)")
       (simp_all add: stopEcsInstance_def requestAliyun_snd targets_def stop_params_def obj_get_def)
qed

text \<open>The control logic adds what the start call or the stop call adds, or nothing.\<close>

lemma control_snd:
  "snd (control P env fig th i r st tr) =
     (case log_values P [i] of
        Inl e \<Rightarrow> tr
      | Inr u \<Rightarrow>
          if jsnum_lt fig th
          then (if st \<noteq> JStr ''Running'' \<and> st \<noteq> JStr ''Starting''
                then snd (startEcsInstance P env i r tr) else tr)
          else (if st \<noteq> JStr ''Stopped'' \<and> st \<noteq> JStr ''Stopping''
                then snd (stopEcsInstance P env i r tr) else tr))"
  by (cases "log_values P [i]")
     (simp_all add: control_def io_bind_snd_return, simp_all add: io_result_def)

lemma control_new:
  "\<exists>new. snd (control P env fig th i r st tr) = tr @ new \<and> length new \<le> 1
         \<and> (\<forall>q \<in> set new. targets P i q)"
  using start_new [of P env i r tr] stop_new [of P env i r tr]
  by (auto simp add: control_snd split: sum.splits)

lemma log_values_three:
  "log_values P [a, b, c] =
     try_bind (ToString P a) (\<lambda>_. try_bind (ToString P b) (\<lambda>_. try_bind (ToString P c) (\<lambda>_. Inr ())))"
  by (cases "ToString P a"; cases "ToString P b"; cases "ToString P c") (simp_all add: log_values_def)

lemma log_values_one:
  "log_values P [a] = try_bind (ToString P a) (\<lambda>_. Inr ())"
  by (cases "ToString P a") (simp_all add: log_values_def)

text \<open>A config that passes the guard of line 280 goes on to lines 286--307.\<close>

lemma instance_step_valid:
  assumes "get_prop inst ''region'' = Inr regionId" "get_prop inst ''id'' = Inr instanceId"
    "get_prop inst ''threshold'' = Inr th" "truthy regionId" "truthy instanceId"
    "parseFloat P th = Inr threshold" "\<not> isNaN threshold"
  shows "instance_step P env tbr inst tr =
     io_bind (io_result (regionTrafficGB P tbr regionId)) (\<lambda>held.
     io_bind (io_result (toFixed held)) (\<lambda>regionTraffic.
     io_bind (getEcsStatus P env instanceId regionId) (\<lambda>instanceStatus.
     io_bind (io_result (log_values P [instanceId, regionId, instanceStatus])) (\<lambda>_.
       control P env regionTraffic threshold instanceId regionId instanceStatus)))) tr"
  using assms by (simp add: instance_step_def)

lemma regionTrafficGB_text:
  "regionTrafficGB P tbr regionId = Inr v \<Longrightarrow> \<exists>k. ToString P regionId = Inr k"
  by (cases "ToString P regionId") (simp_all add: regionTrafficGB_def)

lemma regionTrafficGB_not_NaN: "regionTrafficGB P tbr r \<noteq> Inr (Num NaN)"
  by (cases "ToString P r")
     (auto simp add: regionTrafficGB_def split: option.splits)

lemma jsnum_ge_not_lt: "x \<noteq> NaN \<Longrightarrow> y \<noteq> NaN \<Longrightarrow> jsnum_ge x y = (\<not> jsnum_lt x y)"
  by (cases x; cases y) auto

section \<open>When signing succeeds\<close>

lemma collect_ok:
  "(\<exists>ys. collect xs = Inr ys) = (\<forall>x \<in> set xs. \<exists>y. x = Inr y)"
proof (induction xs)
  case Nil
  show ?case by simp
next
  case (Cons x xs)
  show ?case
  proof (cases x)
    case (Inl e)
    then show ?thesis by auto
  next
    case (Inr a)
    then show ?thesis using Cons by (cases "collect xs") auto
  qed
qed

lemma canonicalQuery_ok:
  "(\<exists>q. canonicalQuery P obj = Inr q)
     = (\<forall>k \<in> set (Object_keys obj). \<exists>s. ToString P (obj_get obj k) = Inr s)"
proof -
  let ?g = "\<lambda>key. try_bind (ToString P (obj_get obj key))
              (\<lambda>t. Inr (percentEncode key @ ''='' @ percentEncode t))"
  have g: "(\<exists>y. ?g k = Inr y) = (\<exists>s. ToString P (obj_get obj k) = Inr s)" for k
    by (cases "ToString P (obj_get obj k)") simp_all
  have "(\<exists>q. canonicalQuery P obj = Inr q)
      = (\<exists>ys. collect (map ?g (sort_key utf16 (Object_keys obj))) = Inr ys)"
    by (cases "collect (map ?g (sort_key utf16 (Object_keys obj)))")
       (simp_all add: canonicalQuery_def)
  also have "\<dots> = (\<forall>k \<in> set (Object_keys obj). \<exists>y. ?g k = Inr y)"
    by (simp add: collect_ok)
  finally show ?thesis by (simp only: g)
qed

lemma sign_ok:
  "(\<exists>s. sign P obj secret method = Inr s)
     = ((\<exists>q. canonicalQuery P obj = Inr q) \<and> (\<exists>k. ToString P secret = Inr k))"
  by (cases "canonicalQuery P obj"; cases "ToString P secret")
     (simp_all add: sign_def stringToSign_def)

text \<open>
  A URL is signed exactly when every value of \<open>finalParams\<close> and the secret have
  strings; for the requests of the worker these are the region, the access-key
  identifier and the secret.
\<close>

lemma obj_get_set: "obj_get (obj_set obj k v) k' = (if k' = k then v else obj_get obj k')"
  by (induction obj) (auto simp add: obj_get_def)

lemma keys_obj_set: "set (Object_keys (obj_set obj k v)) = insert k (set (Object_keys obj))"
  by (induction obj) (auto simp add: Object_keys_def)

lemma values_ok_set: "values_ok P obj \<Longrightarrow> values_ok P (obj_set obj k (JStr s))"
  by (auto simp add: values_ok_def obj_get_set keys_obj_set)

lemma signed_url_ok:
  "(\<exists>u. signed_url P env d ps n = Inr u)
     = (values_ok P (finalParams P env ps n) \<and> (\<exists>c. ToString P (ACCESS_KEY_SECRET env) = Inr c))"
proof (cases "sign P (finalParams P env ps n) (ACCESS_KEY_SECRET env) ''POST''")
  case (Inl e)
  then have "\<not> (\<exists>s. sign P (finalParams P env ps n) (ACCESS_KEY_SECRET env) ''POST'' = Inr s)"
    by simp
  then have "\<not> (values_ok P (finalParams P env ps n)
                \<and> (\<exists>c. ToString P (ACCESS_KEY_SECRET env) = Inr c))"
    unfolding sign_ok canonicalQuery_ok values_ok_def .
  then show ?thesis
    using Inl by (simp add: signed_url_def)
next
  case (Inr s)
  then have "\<exists>s. sign P (finalParams P env ps n) (ACCESS_KEY_SECRET env) ''POST'' = Inr s"
    by blast
  then have ok: "values_ok P (finalParams P env ps n)"
    "\<exists>c. ToString P (ACCESS_KEY_SECRET env) = Inr c"
    by (simp_all add: sign_ok canonicalQuery_ok values_ok_def)
  have "\<exists>q. canonicalQuery P (obj_set (finalParams P env ps n) ''Signature'' (JStr s)) = Inr q"
    using values_ok_set [OF ok(1)] by (simp add: canonicalQuery_ok values_ok_def)
  then show ?thesis
    using Inr ok by (auto simp add: signed_url_def)
qed

lemma describe_signed:
  "(\<exists>u. signed_url P env d (describe_params P i r) n = Inr u) = signable P env r"
  by (auto simp add: signed_url_ok values_ok_def finalParams_def describe_params_def
        obj_spread_def Object_keys_def obj_get_def signable_def)

lemma start_signed:
  "(\<exists>u. signed_url P env d (start_params P i r) n = Inr u) = signable P env r"
  by (auto simp add: signed_url_ok values_ok_def finalParams_def start_params_def
        obj_spread_def Object_keys_def obj_get_def signable_def)

lemma stop_signed:
  "(\<exists>u. signed_url P env d (stop_params P i r) n = Inr u) = signable P env r"
  by (auto simp add: signed_url_ok values_ok_def finalParams_def stop_params_def
        obj_spread_def Object_keys_def obj_get_def signable_def)

lemma traffic_signed:
  "(\<exists>u. signed_url P env d traffic_params n = Inr u)
     = ((\<exists>b. ToString P (ACCESS_KEY_ID env) = Inr b) \<and> (\<exists>c. ToString P (ACCESS_KEY_SECRET env) = Inr c))"
  by (auto simp add: signed_url_ok values_ok_def finalParams_def traffic_params_def
        obj_spread_def Object_keys_def obj_get_def)

lemma requestAliyun_Inr:
  assumes "requestAliyun P env d ps tr = (Inr result, tr')"
  shows "\<exists>u. signed_url P env d ps (length tr) = Inr u
           \<and> tr' = tr @ [\<lparr>req_domain = d, req_params = ps, req_url = u\<rparr>]"
  using assms
  by (cases "signed_url P env d ps (length tr)")
     (auto simp add: requestAliyun_def Let_def split: response.splits option.splits if_splits)

lemma getEcsStatus_Inr:
  assumes "getEcsStatus P env i r tr = (Inr st, tr')" "ToString P r = Inr key"
  shows "signable P env r
       \<and> (\<exists>u. tr' = tr @ [\<lparr>req_domain = ecs_domain key, req_params = describe_params P i r,
                               req_url = u\<rparr>])"
proof -
  obtain result where r: "requestAliyun P env (ecs_domain key) (describe_params P i r) tr
      = (Inr result, tr')"
    using assms
    by (cases "requestAliyun P env (ecs_domain key) (describe_params P i r) tr")
       (auto simp add: getEcsStatus_def io_bind_def io_result_def split: sum.splits)
  from requestAliyun_Inr [OF r] describe_signed [of P env "ecs_domain key" i r "length tr"]
  show ?thesis by auto
qed

lemma start_issued:
  assumes "signable P env r" "ToString P r = Inr key"
  shows "map call_of (issued (startEcsInstance P env i r) tr) = [(ecs_domain key, start_params P i r)]"
proof -
  obtain u where "signed_url P env (ecs_domain key) (start_params P i r) (length tr) = Inr u"
    using assms(1) start_signed [of P env "ecs_domain key" i r "length tr"] by auto
  then show ?thesis
    using assms(2) by (simp add: issued_def startEcsInstance_def requestAliyun_snd call_of_def)
qed

lemma stop_issued:
  assumes "signable P env r" "ToString P r = Inr key"
  shows "map call_of (issued (stopEcsInstance P env i r) tr) = [(ecs_domain key, stop_params P i r)]"
proof -
  obtain u where "signed_url P env (ecs_domain key) (stop_params P i r) (length tr) = Inr u"
    using assms(1) stop_signed [of P env "ecs_domain key" i r "length tr"] by auto
  then show ?thesis
    using assms(2) by (simp add: issued_def stopEcsInstance_def requestAliyun_snd call_of_def)
qed

lemma regionTrafficGB_held:
  assumes "ToString P regionId = Inr key" "tbr_read tbr key = map_option Num held"
  shows "regionTrafficGB P tbr regionId = Inr (Num (effective held))"
  using assms by (cases held) (auto simp add: regionTrafficGB_def effective_def)

lemma issued_start: "snd (m tr) = tr @ new \<Longrightarrow> issued m tr = new"
  by (simp add: issued_def)

section \<open>Running the model on the concrete host\<close>

text \<open>
  The URL of a request is the outcome of signing, which succeeds on the concrete host:
  the runs below take the URL it yields and evaluate the rest with the definitions
  collected here.
\<close>

lemma demo_signable [simp]: "signable (demo_platform texts rs) demo_env (JStr r)"
  by (simp add: signable_def demo_env_def)

lemmas request_defs = getEcsStatus_def io_bind_def io_result_def io_return_def requestAliyun_def
  ecs_domain_def Let_def

lemma answer_case [simp]:
  "(case answer t of Rejected \<Rightarrow> a | Response x y z w \<Rightarrow> f x y z w) = f True 200 ''OK'' t"
  by (simp add: answer_def)

lemmas answer_defs = demo_texts_def described_def extract_status_def js_or_def io_result_def
  io_return_def io_bind_def

lemma demo_parse [simp]:
  "map_of demo_texts ''configs''
     = Some (JArr [cfg ''cn-hongkong'' ''i-a'' 200, cfg ''cn-hongkong'' ''i-b'' 10])"
  "map_of demo_texts ''twice''
     = Some (JArr [cfg ''cn-hongkong'' ''i-a'' 200, cfg ''cn-hongkong'' ''i-a'' 10])"
  "map_of demo_texts ''traffic''
     = Some (JObj [(''TrafficDetails'', JArr [detail ''cn-hongkong'' (JNum (Fin (50 * 1024 ^ 3)))])])"
  "map_of demo_texts ''running'' = Some (described ''Running'')"
  "map_of demo_texts ''stopped'' = Some (described ''Stopped'')"
  "map_of demo_texts ''none'' = Some (JObj [(''Instances'', JObj [(''Instance'', JArr [])])])"
  "map_of demo_texts ''ack'' = Some (JObj [(''RequestId'', JStr ''1'')])"
  by (simp_all add: demo_texts_def)

lemma demo_env_fields [simp]:
  "ACCESS_KEY_ID demo_env = JStr ''LTAI-demo''" "ACCESS_KEY_SECRET demo_env = JStr ''secret''"
  "ECS_INSTANCES_JSON demo_env = JStr ''configs''"
  by (simp_all add: demo_env_def)

lemma demo_signed:
  assumes "ACCESS_KEY_ID env = JStr a" "ACCESS_KEY_SECRET env = JStr b"
  shows "\<exists>u. signed_url (demo_platform texts rs) env d traffic_params n = Inr u"
    "\<exists>u. signed_url (demo_platform texts rs) env d
            (describe_params (demo_platform texts rs) i (JStr r)) n = Inr u"
    "\<exists>u. signed_url (demo_platform texts rs) env d
            (start_params (demo_platform texts rs) i (JStr r)) n = Inr u"
    "\<exists>u. signed_url (demo_platform texts rs) env d
            (stop_params (demo_platform texts rs) i (JStr r)) n = Inr u"
  using assms
  by (simp_all add: traffic_signed describe_signed start_signed stop_signed signable_def)

lemmas exec_defs = handleSchedule_def parse_instances_def run_instances_def
  getTrafficByRegion_def aggregate_def traffic_step_def detail_def instance_step_def control_def
  startEcsInstance_def stopEcsInstance_def tbr_write_def getEcsStatus_def io_bind_def
  io_result_def io_return_def requestAliyun_def ecs_domain_def Let_def cfg_def isNaN_def
  described_def extract_status_def js_or_def regionTrafficGB_def tbr_read_def demo_traffic_def
  inherited_def prototype_functions_def log_values_def

lemmas trace_defs = call_of_def is_actuation_def action_of_def targets_def obj_get_def
  describe_params_def start_params_def stop_params_def traffic_params_def

section \<open>The manual trigger always reports success\<close>

text \<open>
  Claim C9. For every request, environment, host and trace, \<open>handleSchedule\<close> returns
  normally (it never throws to its caller), and the HTTP entry point \<open>fetch\<close> therefore
  answers with status 200 and the body "Executed successfully", whatever failed inside
  the run: a missing variable, a transport error or an error of one instance.
\<close>

theorem handleSchedule_total:
  "fst (handleSchedule P env tr) = Inr () \<and>
   fst (fetch P request env tr) = Inr \<lparr>resp_body = ''Executed successfully'', resp_status = 200\<rparr>"
proof -
  have h: "fst (handleSchedule P env tr) = Inr ()"
    by (simp add: handleSchedule_def split: sum.splits prod.splits)
  then show ?thesis
    by (cases "handleSchedule P env tr") (simp add: fetch_def io_bind_def io_return_def)
qed

text \<open>
  The run whose traffic request is rejected by the network still answers 200.
\<close>

theorem handleSchedule_total_witness:
  "fst (handleSchedule (demo_platform demo_texts []) demo_env []) = Inr () \<and>
   fst (fetch (demo_platform demo_texts []) JNull demo_env []) =
     Inr \<lparr>resp_body = ''Executed successfully'', resp_status = 200\<rparr>"
  by (rule handleSchedule_total)

section \<open>Configuration errors abort the run before any request\<close>

text \<open>
  Claim C6. When the access-key identifier, the access-key secret or the instance-config
  variable is missing (\<^verbatim>\<open>undefined\<close>, or any other falsy value), or when the
  instance-config value is not valid JSON (it has no text, or \<^verbatim>\<open>JSON.parse\<close>
  rejects its text), \<open>handleSchedule\<close> returns with the trace unchanged: no request is
  issued and no instance is processed.
\<close>

theorem abort_before_requests:
  assumes "\<not> truthy (ACCESS_KEY_ID env) \<or> \<not> truthy (ACCESS_KEY_SECRET env)
           \<or> \<not> truthy (ECS_INSTANCES_JSON env)
           \<or> (\<exists>e. ToString P (ECS_INSTANCES_JSON env) = Inl e)
           \<or> (\<exists>text. ToString P (ECS_INSTANCES_JSON env) = Inr text \<and> JSON_parse P text = None)"
  shows "handleSchedule P env tr = (Inr (), tr) \<and> issued (handleSchedule P env) tr = []"
  using assms by (auto simp add: handleSchedule_def issued_def parse_instances_def)

text \<open>
  A truncated JSON text as the instance list: the run ends with an empty trace.
\<close>

theorem abort_before_requests_witness:
  "handleSchedule (demo_platform demo_texts [answer ''traffic''])
      (demo_env\<lparr>ECS_INSTANCES_JSON := JStr ''[{''\<rparr>) [] = (Inr (), []) \<and>
   issued (handleSchedule (demo_platform demo_texts [answer ''traffic''])
      (demo_env\<lparr>ECS_INSTANCES_JSON := JStr ''[{''\<rparr>)) [] = []"
  by (rule abort_before_requests) (simp add: demo_env_def demo_texts_def)

section \<open>Idempotence of the control logic\<close>

text \<open>
  Claim C2. For a config that passes the validity guard and a region whose traffic figure
  is a number, once the status query has returned: if the figure is strictly below the
  threshold and the status is Running or Starting, or if the figure is greater than or
  equal to the threshold and the status is Stopped or Stopping, none of the requests
  issued for that instance is an actuation call (neither a start nor a stop). The
  processing of the instance ends right after the status query, with the trace the
  query left; it ends normally whenever the instance identifier has a text, which the
  log line of the control logic writes.
\<close>

theorem no_actuation_when_satisfied:
  assumes "get_prop inst ''region'' = Inr regionId" "get_prop inst ''id'' = Inr instanceId"
    "get_prop inst ''threshold'' = Inr th" "truthy regionId" "truthy instanceId"
    "parseFloat P th = Inr threshold" "\<not> isNaN threshold"
    and figure: "regionTrafficGB P tbr regionId = Inr (Num regionTraffic)"
    and status: "getEcsStatus P env instanceId regionId tr = (Inr instanceStatus, tr')"
    and sat: "(jsnum_lt regionTraffic threshold \<and>
                (instanceStatus = JStr ''Running'' \<or> instanceStatus = JStr ''Starting''))
            \<or> (jsnum_ge regionTraffic threshold \<and>
                (instanceStatus = JStr ''Stopped'' \<or> instanceStatus = JStr ''Stopping''))"
  shows "instance_step P env tbr inst tr = (try_bind (ToString P instanceId) (\<lambda>t. Inr ()), tr')
       \<and> filter is_actuation (issued (instance_step P env tbr inst) tr) = []"
proof -
  have ge: "jsnum_ge regionTraffic threshold = (\<not> jsnum_lt regionTraffic threshold)"
    using assms(7) figure regionTrafficGB_not_NaN [of P tbr regionId]
    by (intro jsnum_ge_not_lt) (auto simp add: isNaN_def)
  obtain k where k: "ToString P regionId = Inr k"
    using regionTrafficGB_text [OF figure] by blast
  have st: "\<exists>s. ToString P instanceStatus = Inr s"
    using sat by auto
  have step: "instance_step P env tbr inst tr
      = (try_bind (ToString P instanceId) (\<lambda>t. Inr ()), tr')"
  proof (cases "ToString P instanceId")
    case (Inl e)
    then show ?thesis
      by (simp add: instance_step_valid [OF assms(1-7)] figure io_bind_def status
            log_values_three io_result_def)
  next
    case (Inr rtext)
    then show ?thesis
      using sat ge st k
      by (auto simp add: instance_step_valid [OF assms(1-7)] figure io_bind_def status
            log_values_three log_values_one io_result_def control_def)
  qed
  obtain new where new: "tr' = tr @ new" "filter is_actuation new = []"
    using getEcsStatus_new [of P env instanceId regionId tr] status by auto
  show ?thesis
    using step new by (simp add: issued_def)
qed

text \<open>
  Instance i-a (threshold 200) at 50 GB, reported Running: only the status query is issued.
\<close>

theorem no_actuation_when_satisfied_witness:
  "instance_step host_running demo_env demo_traffic (cfg ''cn-hongkong'' ''i-a'' 200) []
     = (Inr (), snd (getEcsStatus host_running demo_env (JStr ''i-a'') (JStr ''cn-hongkong'') []))
   \<and> filter is_actuation
        (issued (instance_step host_running demo_env demo_traffic (cfg ''cn-hongkong'' ''i-a'' 200)) [])
      = []
   \<and> map call_of (snd (instance_step host_running demo_env demo_traffic
                          (cfg ''cn-hongkong'' ''i-a'' 200) []))
      = [(''ecs.cn-hongkong.aliyuncs.com'',
          describe_params host_running (JStr ''i-a'') (JStr ''cn-hongkong''))]"
proof -
  obtain u where u: "signed_url host_running demo_env ''ecs.cn-hongkong.aliyuncs.com''
      (describe_params host_running (JStr ''i-a'') (JStr ''cn-hongkong'')) 0 = Inr u"
    using describe_signed [of host_running demo_env _ "JStr ''i-a''" "JStr ''cn-hongkong''" 0]
    by auto
  have g: "getEcsStatus host_running demo_env (JStr ''i-a'') (JStr ''cn-hongkong'') []
      = (Inr (JStr ''Running''),
         [\<lparr>req_domain = ''ecs.cn-hongkong.aliyuncs.com'',
            req_params = describe_params host_running (JStr ''i-a'') (JStr ''cn-hongkong''),
            req_url = u\<rparr>])"
    by (simp add: request_defs u) (simp add: answer_defs)
  have s: "instance_step host_running demo_env demo_traffic (cfg ''cn-hongkong'' ''i-a'' 200) []
      = (try_bind (ToString host_running (JStr ''i-a'')) (\<lambda>t. Inr ()),
         [\<lparr>req_domain = ''ecs.cn-hongkong.aliyuncs.com'',
            req_params = describe_params host_running (JStr ''i-a'') (JStr ''cn-hongkong''),
            req_url = u\<rparr>])
    \<and> filter is_actuation
        (issued (instance_step host_running demo_env demo_traffic (cfg ''cn-hongkong'' ''i-a'' 200)) [])
      = []"
    by (rule no_actuation_when_satisfied [where regionId = "JStr ''cn-hongkong''"
          and th = "JNum (Fin 200)" and threshold = "Fin 200" and regionTraffic = "Fin 50"
          and instanceStatus = "JStr ''Running''"])
       (simp_all add: g, simp_all add: cfg_def isNaN_def regionTrafficGB_def tbr_read_def
          demo_traffic_def)
  show ?thesis
    using s g by (simp add: call_of_def)
qed

section \<open>The decision for one instance\<close>

text \<open>
  Claim C3, as amended. Take a config that passes the validity guard, whose instance
  identifier has a text and whose region has the text \<open>key\<close>, and a traffic mapping whose
  read at \<open>key\<close> finds a number or nothing (this leaves out the names that an object
  inherits from \<^verbatim>\<open>Object.prototype\<close>, such as \<^verbatim>\<open>constructor\<close>, for which line
  287 throws). The effective traffic figure is the number held, and exactly 0 when the
  region is absent from the mapping or when the number held is NaN. Once the status query
  has returned a status that has a text, the requests issued for the instance are the
  status query followed by: a start request when the figure is strictly below the
  threshold and the status is neither Running nor Starting (desired state Running); a
  stop request when the figure is not below the threshold and the status is neither
  Stopped nor Stopping (desired state Stopped); nothing otherwise. The decision reads
  only the instance's own config and the shared mapping, so two configs of one region
  with different thresholds can be decided differently.
\<close>

theorem decision_per_instance:
  assumes "get_prop inst ''region'' = Inr regionId" "get_prop inst ''id'' = Inr instanceId"
    "get_prop inst ''threshold'' = Inr th" "truthy regionId" "truthy instanceId"
    "parseFloat P th = Inr threshold" "\<not> isNaN threshold"
    and key: "ToString P regionId = Inr key"
    and held: "tbr_read tbr key = map_option Num held"
    and ident: "ToString P instanceId = Inr instance_text"
    and status: "getEcsStatus P env instanceId regionId tr = (Inr instanceStatus, tr')"
    and stat: "ToString P instanceStatus = Inr status_text"
  shows "regionTrafficGB P tbr regionId = Inr (Num (effective held))
       \<and> map call_of (issued (instance_step P env tbr inst) tr) =
           (ecs_domain key, describe_params P instanceId regionId)
           # (if jsnum_lt (effective held) threshold
              then (if instanceStatus \<noteq> JStr ''Running'' \<and> instanceStatus \<noteq> JStr ''Starting''
                    then [(ecs_domain key, start_params P instanceId regionId)] else [])
              else (if instanceStatus \<noteq> JStr ''Stopped'' \<and> instanceStatus \<noteq> JStr ''Stopping''
                    then [(ecs_domain key, stop_params P instanceId regionId)] else []))"
proof -
  note fig = regionTrafficGB_held [OF key held]
  from getEcsStatus_Inr [OF status key] obtain u
    where sg: "signable P env regionId"
      and tr': "tr' = tr @ [\<lparr>req_domain = ecs_domain key,
                  req_params = describe_params P instanceId regionId, req_url = u\<rparr>]"
    by blast
  have step: "snd (instance_step P env tbr inst tr) =
          snd (control P env (effective held) threshold instanceId regionId instanceStatus tr')"
    by (simp add: instance_step_valid [OF assms(1-7)] fig io_bind_def status
          log_values_three key ident stat io_result_def)
  have lg: "log_values P [instanceId] = Inr ()"
    by (simp add: log_values_one ident)
  have a: "snd (startEcsInstance P env instanceId regionId tr')
      = tr' @ issued (startEcsInstance P env instanceId regionId) tr'"
    using start_new [of P env instanceId regionId tr'] by (auto simp add: issued_def)
  have b: "snd (stopEcsInstance P env instanceId regionId tr')
      = tr' @ issued (stopEcsInstance P env instanceId regionId) tr'"
    using stop_new [of P env instanceId regionId tr'] by (auto simp add: issued_def)
  have "map call_of (issued (instance_step P env tbr inst) tr) =
           (ecs_domain key, describe_params P instanceId regionId)
           # (if jsnum_lt (effective held) threshold
              then (if instanceStatus \<noteq> JStr ''Running'' \<and> instanceStatus \<noteq> JStr ''Starting''
                    then map call_of (issued (startEcsInstance P env instanceId regionId) tr') else [])
              else (if instanceStatus \<noteq> JStr ''Stopped'' \<and> instanceStatus \<noteq> JStr ''Stopping''
                    then map call_of (issued (stopEcsInstance P env instanceId regionId) tr') else []))"
    unfolding issued_def [of "instance_step P env tbr inst"] step control_snd lg
    by (simp add: a b) (simp add: tr' call_of_def)
  then show ?thesis
    using fig by (simp add: start_issued [OF sg key] stop_issued [OF sg key])
qed

text \<open>
  The scenario of the specification: region traffic 50 GB; i-a (threshold 200), found
  stopped, is started; i-b (threshold 10), found running, is stopped. A region the
  mapping does not hold has the figure 0.
\<close>

theorem decision_per_instance_witness:
  "map call_of (issued (instance_step host_stopped demo_env demo_traffic
                          (cfg ''cn-hongkong'' ''i-a'' 200)) [])
     = [(''ecs.cn-hongkong.aliyuncs.com'',
           describe_params host_stopped (JStr ''i-a'') (JStr ''cn-hongkong'')),
        (''ecs.cn-hongkong.aliyuncs.com'',
           start_params host_stopped (JStr ''i-a'') (JStr ''cn-hongkong''))]
   \<and> map call_of (issued (instance_step host_running demo_env demo_traffic
                          (cfg ''cn-hongkong'' ''i-b'' 10)) [])
     = [(''ecs.cn-hongkong.aliyuncs.com'',
           describe_params host_running (JStr ''i-b'') (JStr ''cn-hongkong'')),
        (''ecs.cn-hongkong.aliyuncs.com'',
           stop_params host_running (JStr ''i-b'') (JStr ''cn-hongkong''))]
   \<and> regionTrafficGB host_stopped demo_traffic (JStr ''cn-hongkong'') = Inr (Num (Fin 50))
   \<and> regionTrafficGB host_stopped demo_traffic (JStr ''cn-shenzhen'') = Inr (Num (Fin 0))"
proof -
  obtain ua where ua: "signed_url host_stopped demo_env ''ecs.cn-hongkong.aliyuncs.com''
      (describe_params host_stopped (JStr ''i-a'') (JStr ''cn-hongkong'')) 0 = Inr ua"
    using describe_signed [of host_stopped demo_env _ "JStr ''i-a''" "JStr ''cn-hongkong''" 0]
    by auto
  obtain ub where ub: "signed_url host_running demo_env ''ecs.cn-hongkong.aliyuncs.com''
      (describe_params host_running (JStr ''i-b'') (JStr ''cn-hongkong'')) 0 = Inr ub"
    using describe_signed [of host_running demo_env _ "JStr ''i-b''" "JStr ''cn-hongkong''" 0]
    by auto
  have a: "getEcsStatus host_stopped demo_env (JStr ''i-a'') (JStr ''cn-hongkong'') []
      = (Inr (JStr ''Stopped''),
         [\<lparr>req_domain = ''ecs.cn-hongkong.aliyuncs.com'',
            req_params = describe_params host_stopped (JStr ''i-a'') (JStr ''cn-hongkong''),
            req_url = ua\<rparr>])"
    by (simp add: request_defs ua) (simp add: answer_defs)
  have b: "getEcsStatus host_running demo_env (JStr ''i-b'') (JStr ''cn-hongkong'') []
      = (Inr (JStr ''Running''),
         [\<lparr>req_domain = ''ecs.cn-hongkong.aliyuncs.com'',
            req_params = describe_params host_running (JStr ''i-b'') (JStr ''cn-hongkong''),
            req_url = ub\<rparr>])"
    by (simp add: request_defs ub) (simp add: answer_defs)
  have h: "tbr_read demo_traffic ''cn-hongkong'' = map_option Num (Some (Fin 50))"
    "tbr_read demo_traffic ''cn-shenzhen'' = map_option Num None"
    by (simp_all add: tbr_read_def demo_traffic_def inherited_def prototype_functions_def)
  have k: "ToString P (JStr ''cn-hongkong'') = Inr ''cn-hongkong''" for P by simp
  note wa = decision_per_instance [where inst = "cfg ''cn-hongkong'' ''i-a'' 200"
          and th = "JNum (Fin 200)" and threshold = "Fin 200" and instanceId = "JStr ''i-a''"
          and tbr = demo_traffic, OF _ _ _ _ _ _ _ k h(1) _ a]
  note wb = decision_per_instance [where inst = "cfg ''cn-hongkong'' ''i-b'' 10"
          and th = "JNum (Fin 10)" and threshold = "Fin 10" and instanceId = "JStr ''i-b''"
          and tbr = demo_traffic, OF _ _ _ _ _ _ _ k h(1) _ b]
  have z: "regionTrafficGB host_stopped demo_traffic (JStr ''cn-shenzhen'') = Inr (Num (Fin 0))"
    using regionTrafficGB_held [of host_stopped "JStr ''cn-shenzhen''" _ demo_traffic None] h(2)
    by (simp add: effective_def)
  show ?thesis
    using wa wb z
    by (simp add: cfg_def isNaN_def effective_def ecs_domain_def)
qed

text \<open>
  The claim as stated fails where the mapping holds NaN for the region: a traffic record
  whose byte count is the text "abc" leaves NaN in the mapping, and the effective figure
  is then 0, not the value of the mapping. It also fails for the region name
  \<^verbatim>\<open>constructor\<close>, absent from the mapping: the figure is not 0 but the function
  the empty object inherits, and the processing of the instance throws before any
  request.
\<close>

theorem figure_counterexample:
  "aggregate (demo_platform demo_texts [])
      (JObj [(''TrafficDetails'', JArr [detail ''cn-hongkong'' (JStr ''abc'')])])
     = Inr [''cn-hongkong'' \<mapsto> Num NaN]
   \<and> regionTrafficGB (demo_platform demo_texts []) [''cn-hongkong'' \<mapsto> Num NaN]
        (JStr ''cn-hongkong'') = Inr (Num (Fin 0))
   \<and> regionTrafficGB (demo_platform demo_texts []) Map.empty (JStr ''constructor'')
     = Inr (Builtin ''constructor'')
   \<and> instance_step host_stopped demo_env Map.empty (cfg ''constructor'' ''i-a'' 200) []
     = (Inl TypeError, [])"
  by (simp add: aggregate_def js_or_def traffic_step_def detail_def tbr_read_def tbr_write_def
        regionTrafficGB_def demo_number_def is_digit_def inherited_def prototype_functions_def
        instance_step_def cfg_def isNaN_def)

section \<open>At most one actuation call per config entry\<close>

lemma instance_step_new:
  "\<exists>new. snd (instance_step P env tbr inst tr) = tr @ new
         \<and> length (filter is_actuation new) \<le> 1
         \<and> (\<forall>r \<in> set new. is_actuation r \<longrightarrow> targets P (config_id inst) r)"
proof (cases "get_prop inst ''region''")
  case (Inl e)
  then show ?thesis by (simp add: instance_step_def io_bind_def io_result_def)
next
  case r: (Inr regionId)
  show ?thesis
  proof (cases "get_prop inst ''id''")
    case (Inl e)
    then show ?thesis using r by (simp add: instance_step_def io_bind_def io_result_def)
  next
    case i: (Inr instanceId)
    show ?thesis
    proof (cases "get_prop inst ''threshold''")
      case (Inl e)
      then show ?thesis using r i by (simp add: instance_step_def io_bind_def io_result_def)
    next
      case t: (Inr th)
      show ?thesis
      proof (cases "parseFloat P th")
        case (Inl e)
        then show ?thesis using r i t by (simp add: instance_step_def io_bind_def io_result_def)
      next
        case p: (Inr threshold)
        show ?thesis
        proof (cases "truthy regionId \<and> truthy instanceId \<and> \<not> isNaN threshold")
          case False
          then show ?thesis using r i t p
            by (auto simp add: instance_step_def io_bind_def io_result_def io_return_def)
        next
          case True
          then have v: "truthy regionId" "truthy instanceId" "\<not> isNaN threshold" by simp_all
          note step = instance_step_valid [OF r i t v(1,2) p v(3)]
          have cid: "config_id inst = instanceId" by (simp add: config_id_def i)
          show ?thesis
          proof (cases "regionTrafficGB P tbr regionId")
            case (Inl e)
            then show ?thesis by (simp add: step io_bind_def io_result_def)
          next
            case h: (Inr held)
            show ?thesis
            proof (cases "toFixed held")
              case (Inl e)
              then show ?thesis by (simp add: step h io_bind_def io_result_def)
            next
              case f: (Inr regionTraffic)
              obtain res tr' where g: "getEcsStatus P env instanceId regionId tr = (res, tr')"
                by (cases "getEcsStatus P env instanceId regionId tr")
              obtain new1 where tr': "tr' = tr @ new1" and n1: "filter is_actuation new1 = []"
                using getEcsStatus_new [of P env instanceId regionId tr] g by auto
              show ?thesis
              proof (cases res)
                case (Inl e)
                then have "snd (instance_step P env tbr inst tr) = tr @ new1"
                  by (simp add: step h f io_bind_def io_result_def g tr')
                then show ?thesis using n1 by (auto simp add: filter_empty_conv)
              next
                case s: (Inr st)
                show ?thesis
                proof (cases "log_values P [instanceId, regionId, st]")
                  case (Inl e)
                  then have "snd (instance_step P env tbr inst tr) = tr @ new1"
                    by (simp add: step h f io_bind_def io_result_def g s tr')
                  then show ?thesis using n1 by (auto simp add: filter_empty_conv)
                next
                  case (Inr u)
                  then have c: "snd (instance_step P env tbr inst tr) =
                      snd (control P env regionTraffic threshold instanceId regionId st tr')"
                    by (simp add: step h f io_bind_def io_result_def g s)
                  obtain new2 where n2: "snd (control P env regionTraffic threshold instanceId
                          regionId st tr') = tr' @ new2"
                    and l2: "length new2 \<le> 1" and t2: "\<forall>q \<in> set new2. targets P instanceId q"
                    using control_new [of P env regionTraffic threshold instanceId regionId st tr']
                    by blast
                  have "length (filter is_actuation new2) \<le> length new2" by simp
                  then have "length (filter is_actuation new2) \<le> 1"
                    using l2 by (rule le_trans)
                  then have "length (filter is_actuation (new1 @ new2)) \<le> 1"
                    using n1 by simp
                  moreover have "\<forall>r \<in> set (new1 @ new2). is_actuation r \<longrightarrow> targets P instanceId r"
                    using n1 t2 by (auto simp add: filter_empty_conv)
                  ultimately show ?thesis
                    using c n2 tr' cid by (intro exI [of _ "new1 @ new2"]) simp
                qed
              qed
            qed
          qed
        qed
      qed
    qed
  qed
qed

lemma instances_loop_new:
  "\<exists>new. snd (instances_loop P env tbr insts tr) = tr @ new
     \<and> length (filter (\<lambda>r. is_actuation r \<and> targets P i r) new)
         \<le> length (filter (\<lambda>inst. JSON_stringify P (JArr [config_id inst]) = JSON_stringify P (JArr [i])) insts)"
proof (induction insts arbitrary: tr)
  case Nil
  then show ?case by (simp add: io_return_def)
next
  case (Cons inst rest)
  obtain new1 where n1: "snd (instance_step P env tbr inst tr) = tr @ new1"
    and l1: "length (filter is_actuation new1) \<le> 1"
    and t1: "\<forall>r \<in> set new1. is_actuation r \<longrightarrow> targets P (config_id inst) r"
    using instance_step_new by blast
  let ?same = "\<lambda>inst. JSON_stringify P (JArr [config_id inst]) = JSON_stringify P (JArr [i])"
  have c1: "length (filter (\<lambda>r. is_actuation r \<and> targets P i r) new1) \<le> (if ?same inst then 1 else 0)"
  proof (cases "?same inst")
    case True
    have "length (filter (\<lambda>r. is_actuation r \<and> targets P i r) new1) \<le> length (filter is_actuation new1)"
      by (induction new1) auto
    then show ?thesis using l1 True by simp
  next
    case False
    have "filter (\<lambda>r. is_actuation r \<and> targets P i r) new1 = []"
      using t1 False by (auto simp add: filter_empty_conv targets_def)
    then show ?thesis by simp
  qed
  obtain res tr1 where s: "instance_step P env tbr inst tr = (res, tr1)"
    by (cases "instance_step P env tbr inst tr")
  have tr1: "tr1 = tr @ new1" using n1 s by simp
  show ?case
  proof (cases res)
    case (Inl e)
    then have "snd (instances_loop P env tbr (inst # rest) tr) = tr @ new1"
      by (simp add: io_bind_def s tr1)
    then show ?thesis using c1 by (auto split: if_splits)
  next
    case (Inr u)
    obtain new2 where n2: "snd (instances_loop P env tbr rest tr1) = tr1 @ new2"
      and l2: "length (filter (\<lambda>r. is_actuation r \<and> targets P i r) new2) \<le> length (filter ?same rest)"
      using Cons.IH [of tr1] by blast
    have "snd (instances_loop P env tbr (inst # rest) tr) = tr @ (new1 @ new2)"
      using Inr n2 by (simp add: io_bind_def s tr1)
    then show ?thesis using c1 l2 by (auto split: if_splits)
  qed
qed

text \<open>
  Claim C10, as amended. Processing one config entry issues at most one actuation call
  (a start or a stop, never both); and over the whole loop of a run, the actuation calls
  about an instance are at most as many as the config entries that name this instance,
  hence at most one for an instance that one entry names.
\<close>

theorem at_most_one_actuation:
  "length (filter is_actuation (issued (instance_step P env tbr inst) tr)) \<le> 1
   \<and> length (filter (\<lambda>r. is_actuation r \<and> targets P i r)
              (issued (instances_loop P env tbr insts) tr))
       \<le> length (filter (\<lambda>inst. JSON_stringify P (JArr [config_id inst])
                                  = JSON_stringify P (JArr [i])) insts)"
  using instance_step_new [of P env tbr inst tr] instances_loop_new [of P env tbr insts tr i]
  by (auto simp add: issued_def)

text \<open>
  The two instances of the scenario: at most one actuation call is about i-a.
\<close>

theorem at_most_one_actuation_witness:
  "length (filter is_actuation
     (issued (instance_step host_stopped demo_env demo_traffic (cfg ''cn-hongkong'' ''i-a'' 200)) []))
     \<le> 1
   \<and> length (filter (\<lambda>r. is_actuation r \<and> targets host_stopped (JStr ''i-a'') r)
        (issued (instances_loop host_stopped demo_env demo_traffic
           [cfg ''cn-hongkong'' ''i-a'' 200, cfg ''cn-hongkong'' ''i-b'' 10]) []))
      \<le> 1"
  using at_most_one_actuation [of host_stopped demo_env
     demo_traffic "cfg ''cn-hongkong'' ''i-a'' 200" "[]" "JStr ''i-a''"
     "[cfg ''cn-hongkong'' ''i-a'' 200, cfg ''cn-hongkong'' ''i-b'' 10]"]
  by (simp add: config_id_def cfg_def demo_stringify_def)

text \<open>
  The claim as stated fails for an instance that two entries name. The list names i-a
  with the thresholds 200 and 10 and the region is at 50 GB: the first entry finds i-a
  stopped and starts it, the second finds it running and stops it. The run issues two
  actuation calls about i-a, a start and a stop.
\<close>

theorem repeated_entry_counterexample:
  "map call_of (filter (\<lambda>r. is_actuation r \<and> targets host_twice (JStr ''i-a'') r)
      (snd (handleSchedule host_twice (demo_env\<lparr>ECS_INSTANCES_JSON := JStr ''twice''\<rparr>) [])))
     = [(''ecs.cn-hongkong.aliyuncs.com'',
           start_params host_twice (JStr ''i-a'') (JStr ''cn-hongkong'')),
        (''ecs.cn-hongkong.aliyuncs.com'',
           stop_params host_twice (JStr ''i-a'') (JStr ''cn-hongkong''))]"
proof -
  let ?env = "demo_env\<lparr>ECS_INSTANCES_JSON := JStr ''twice''\<rparr>"
  let ?d = "''ecs.cn-hongkong.aliyuncs.com''"
  obtain u0 where u0: "signed_url host_twice ?env ''cdt.aliyuncs.com'' traffic_params 0 = Inr u0"
    using demo_signed(1) [of ?env "''LTAI-demo''" "''secret''"] by simp blast
  obtain u1 where u1: "signed_url host_twice ?env ?d
      (describe_params host_twice (JStr ''i-a'') (JStr ''cn-hongkong'')) (Suc 0) = Inr u1"
    using demo_signed(2) [of ?env "''LTAI-demo''" "''secret''"] by simp blast
  obtain u2 where u2: "signed_url host_twice ?env ?d
      (start_params host_twice (JStr ''i-a'') (JStr ''cn-hongkong'')) (Suc (Suc 0)) = Inr u2"
    using demo_signed(3) [of ?env "''LTAI-demo''" "''secret''"] by simp blast
  obtain u3 where u3: "signed_url host_twice ?env ?d
      (describe_params host_twice (JStr ''i-a'') (JStr ''cn-hongkong'')) (Suc (Suc (Suc 0))) = Inr u3"
    using demo_signed(2) [of ?env "''LTAI-demo''" "''secret''"] by simp blast
  obtain u4 where u4: "signed_url host_twice ?env ?d
      (stop_params host_twice (JStr ''i-a'') (JStr ''cn-hongkong'')) (Suc (Suc (Suc (Suc 0)))) = Inr u4"
    using demo_signed(4) [of ?env "''LTAI-demo''" "''secret''"] by simp blast
  have "snd (handleSchedule host_twice ?env [])
      = [\<lparr>req_domain = ''cdt.aliyuncs.com'', req_params = traffic_params, req_url = u0\<rparr>,
         \<lparr>req_domain = ?d, req_params = describe_params host_twice (JStr ''i-a'') (JStr ''cn-hongkong''),
            req_url = u1\<rparr>,
         \<lparr>req_domain = ?d, req_params = start_params host_twice (JStr ''i-a'') (JStr ''cn-hongkong''),
            req_url = u2\<rparr>,
         \<lparr>req_domain = ?d, req_params = describe_params host_twice (JStr ''i-a'') (JStr ''cn-hongkong''),
            req_url = u3\<rparr>,
         \<lparr>req_domain = ?d, req_params = stop_params host_twice (JStr ''i-a'') (JStr ''cn-hongkong''),
            req_url = u4\<rparr>]"
    by (simp add: exec_defs u0 u1 u2 u3 u4)
  then show ?thesis
    by (simp add: trace_defs demo_stringify_def)
qed

section \<open>Configs that are skipped\<close>

text \<open>
  Claim C7, as amended. A config entry whose threshold \<^verbatim>\<open>parseFloat\<close> can read
  (the conversion of the threshold to a string does not throw), and whose region is empty
  or missing, whose instance id is empty or missing, or whose threshold parses to NaN, is
  skipped: no status query and no actuation is issued for it, and the loop goes on with
  the remaining entries.
\<close>

theorem skip_invalid_config:
  assumes "get_prop inst ''region'' = Inr regionId" "get_prop inst ''id'' = Inr instanceId"
    "get_prop inst ''threshold'' = Inr th" "parseFloat P th = Inr threshold"
    and "\<not> truthy regionId \<or> \<not> truthy instanceId \<or> isNaN threshold"
  shows "instance_step P env tbr inst tr = (Inr (), tr)
       \<and> instances_loop P env tbr (inst # rest) tr = instances_loop P env tbr rest tr"
proof -
  have "instance_step P env tbr inst tr = (Inr (), tr)"
    using assms by (auto simp add: instance_step_def io_bind_def io_result_def io_return_def)
  then show ?thesis by (simp add: io_bind_def)
qed

text \<open>
  An entry whose threshold is the text "high" is skipped and the next entry is processed.
\<close>

theorem skip_invalid_config_witness:
  "instance_step host_running demo_env demo_traffic
     (JObj [(''region'', JStr ''cn-hongkong''), (''id'', JStr ''i-a''), (''threshold'', JStr ''high'')]) []
     = (Inr (), [])
   \<and> instances_loop host_running demo_env demo_traffic
       [JObj [(''region'', JStr ''cn-hongkong''), (''id'', JStr ''i-a''), (''threshold'', JStr ''high'')],
        cfg ''cn-hongkong'' ''i-a'' 200] []
     = instances_loop host_running demo_env demo_traffic [cfg ''cn-hongkong'' ''i-a'' 200] []"
  by (rule skip_invalid_config [where regionId = "JStr ''cn-hongkong''" and instanceId = "JStr ''i-a''"
        and th = "JStr ''high''" and threshold = NaN])
     (simp_all add: isNaN_def demo_number_def is_digit_def)

text \<open>
  The claim as stated fails for a negative threshold: the entry with threshold -1 is not
  skipped; its status is queried and, found running, the instance is stopped. It also
  fails for an entry with an empty region whose threshold is the object
  \<^verbatim>\<open>{"toString": 1}\<close>: \<^verbatim>\<open>parseFloat\<close> throws before the guard is reached, and
  the loop ends instead of going on.
\<close>

theorem negative_threshold_counterexample:
  "map call_of (issued (instance_step host_running demo_env demo_traffic
                          (cfg ''cn-hongkong'' ''i-a'' (- 1))) [])
     = [(''ecs.cn-hongkong.aliyuncs.com'',
           describe_params host_running (JStr ''i-a'') (JStr ''cn-hongkong'')),
        (''ecs.cn-hongkong.aliyuncs.com'',
           stop_params host_running (JStr ''i-a'') (JStr ''cn-hongkong''))]
   \<and> instance_step host_running demo_env demo_traffic
        (JObj [(''region'', JStr []), (''id'', JStr ''i-a''),
               (''threshold'', JObj [(''toString'', JNum (Fin 1))])]) []
     = (Inl TypeError, [])"
proof -
  let ?d = "''ecs.cn-hongkong.aliyuncs.com''"
  obtain u0 where u0: "signed_url host_running demo_env ?d
      (describe_params host_running (JStr ''i-a'') (JStr ''cn-hongkong'')) 0 = Inr u0"
    using demo_signed(2) [of demo_env "''LTAI-demo''" "''secret''"] by simp blast
  obtain u1 where u1: "signed_url host_running demo_env ?d
      (stop_params host_running (JStr ''i-a'') (JStr ''cn-hongkong'')) (Suc 0) = Inr u1"
    using demo_signed(4) [of demo_env "''LTAI-demo''" "''secret''"] by simp blast
  have "snd (instance_step host_running demo_env demo_traffic (cfg ''cn-hongkong'' ''i-a'' (- 1)) [])
      = [\<lparr>req_domain = ?d,
           req_params = describe_params host_running (JStr ''i-a'') (JStr ''cn-hongkong''),
           req_url = u0\<rparr>,
         \<lparr>req_domain = ?d,
           req_params = stop_params host_running (JStr ''i-a'') (JStr ''cn-hongkong''),
           req_url = u1\<rparr>]"
    by (simp add: exec_defs u0 u1)
  moreover have "instance_step host_running demo_env demo_traffic
        (JObj [(''region'', JStr []), (''id'', JStr ''i-a''),
               (''threshold'', JObj [(''toString'', JNum (Fin 1))])]) []
     = (Inl TypeError, [])"
    by (simp add: instance_step_def io_bind_def io_result_def)
  ultimately show ?thesis
    by (simp add: issued_def call_of_def)
qed

section \<open>A failing instance ends the loop\<close>

lemma io_bind_assoc: "io_bind (io_bind m f) g = io_bind m (\<lambda>a. io_bind (f a) g)"
  by (auto simp add: io_bind_def fun_eq_iff split: prod.splits sum.splits)

lemma instances_loop_append:
  "instances_loop P env tbr (xs @ ys) =
     io_bind (instances_loop P env tbr xs) (\<lambda>_. instances_loop P env tbr ys)"
proof (induction xs)
  case Nil
  show ?case by (simp add: io_bind_def io_return_def fun_eq_iff)
next
  case (Cons x xs)
  then show ?case by (simp add: io_bind_assoc)
qed

text \<open>
  Claim C1, as amended. The instances are processed in the order of the list up to the
  first failure. When the processing of one instance fails (its status query finds no
  instance, or a request of its own meets a transport error), the loop ends there: the
  trace of the run is the trace at the failure, so that no request is issued for any
  later instance, and the error is caught by the handler around the loop, so that
  \<open>handleSchedule\<close> returns normally.
\<close>

theorem failure_ends_loop:
  assumes env_ok: "truthy (ACCESS_KEY_ID env)" "truthy (ACCESS_KEY_SECRET env)"
      "truthy (ECS_INSTANCES_JSON env)"
    and parse: "parse_instances P env = Inr instances"
    and iter: "iterate instances = Inr (pre @ inst # rest)"
    and traffic: "getTrafficByRegion P env tr = (Inr tbr, tr0)"
    and before: "instances_loop P env tbr pre tr0 = (Inr (), tr1)"
    and fail: "instance_step P env tbr inst tr1 = (Inl e, tr2)"
  shows "instances_loop P env tbr (pre @ inst # rest) tr0 = (Inl e, tr2)
       \<and> handleSchedule P env tr = (Inr (), tr2)"
proof -
  have loop: "instances_loop P env tbr (pre @ inst # rest) tr0 = (Inl e, tr2)"
    by (simp add: instances_loop_append io_bind_def before fail)
  have "run_instances P env instances tr = (Inl e, tr2)"
    by (simp add: run_instances_def io_bind_def traffic iter io_result_def loop)
  then show ?thesis
    using env_ok parse loop by (simp add: handleSchedule_def)
qed

text \<open>The run on the host that finds no instance i-a, up to the failure.\<close>

lemma not_found_run:
  "\<exists>u0 u1.
     getTrafficByRegion host_not_found demo_env []
       = (Inr demo_traffic,
          [\<lparr>req_domain = ''cdt.aliyuncs.com'', req_params = traffic_params, req_url = u0\<rparr>])
     \<and> instance_step host_not_found demo_env demo_traffic (cfg ''cn-hongkong'' ''i-a'' 200)
         [\<lparr>req_domain = ''cdt.aliyuncs.com'', req_params = traffic_params, req_url = u0\<rparr>]
       = (Inl (Error ''Instance i-a not found in cn-hongkong''),
          [\<lparr>req_domain = ''cdt.aliyuncs.com'', req_params = traffic_params, req_url = u0\<rparr>,
           \<lparr>req_domain = ''ecs.cn-hongkong.aliyuncs.com'',
              req_params = describe_params host_not_found (JStr ''i-a'') (JStr ''cn-hongkong''),
              req_url = u1\<rparr>])"
proof -
  obtain u0 where u0: "signed_url host_not_found demo_env ''cdt.aliyuncs.com'' traffic_params 0
      = Inr u0"
    using demo_signed(1) [of demo_env "''LTAI-demo''" "''secret''"] by simp blast
  obtain u1 where u1: "signed_url host_not_found demo_env ''ecs.cn-hongkong.aliyuncs.com''
      (describe_params host_not_found (JStr ''i-a'') (JStr ''cn-hongkong'')) (Suc 0) = Inr u1"
    using demo_signed(2) [of demo_env "''LTAI-demo''" "''secret''"] by simp blast
  have "getTrafficByRegion host_not_found demo_env []
       = (Inr demo_traffic,
          [\<lparr>req_domain = ''cdt.aliyuncs.com'', req_params = traffic_params, req_url = u0\<rparr>])"
    by (simp add: exec_defs u0)
  moreover have "instance_step host_not_found demo_env demo_traffic (cfg ''cn-hongkong'' ''i-a'' 200)
         [\<lparr>req_domain = ''cdt.aliyuncs.com'', req_params = traffic_params, req_url = u0\<rparr>]
       = (Inl (Error ''Instance i-a not found in cn-hongkong''),
          [\<lparr>req_domain = ''cdt.aliyuncs.com'', req_params = traffic_params, req_url = u0\<rparr>,
           \<lparr>req_domain = ''ecs.cn-hongkong.aliyuncs.com'',
              req_params = describe_params host_not_found (JStr ''i-a'') (JStr ''cn-hongkong''),
              req_url = u1\<rparr>])"
    by (simp add: exec_defs u1)
  ultimately show ?thesis by blast
qed

text \<open>
  The list i-a, i-b when the provider finds no instance i-a: the loop ends with the
  not-found error after the status query of i-a, and the run returns normally.
\<close>

theorem failure_ends_loop_witness:
  "fst (instances_loop host_not_found demo_env demo_traffic
          [cfg ''cn-hongkong'' ''i-a'' 200, cfg ''cn-hongkong'' ''i-b'' 10]
          (snd (getTrafficByRegion host_not_found demo_env [])))
     = Inl (Error ''Instance i-a not found in cn-hongkong'')
   \<and> fst (handleSchedule host_not_found demo_env []) = Inr ()
   \<and> snd (handleSchedule host_not_found demo_env [])
     = snd (instance_step host_not_found demo_env demo_traffic (cfg ''cn-hongkong'' ''i-a'' 200)
              (snd (getTrafficByRegion host_not_found demo_env [])))
   \<and> map call_of (snd (handleSchedule host_not_found demo_env []))
     = [(''cdt.aliyuncs.com'', traffic_params),
        (''ecs.cn-hongkong.aliyuncs.com'',
           describe_params host_not_found (JStr ''i-a'') (JStr ''cn-hongkong''))]"
proof -
  obtain u0 u1 where
    traffic: "getTrafficByRegion host_not_found demo_env []
       = (Inr demo_traffic,
          [\<lparr>req_domain = ''cdt.aliyuncs.com'', req_params = traffic_params, req_url = u0\<rparr>])"
    and fail: "instance_step host_not_found demo_env demo_traffic (cfg ''cn-hongkong'' ''i-a'' 200)
         [\<lparr>req_domain = ''cdt.aliyuncs.com'', req_params = traffic_params, req_url = u0\<rparr>]
       = (Inl (Error ''Instance i-a not found in cn-hongkong''),
          [\<lparr>req_domain = ''cdt.aliyuncs.com'', req_params = traffic_params, req_url = u0\<rparr>,
           \<lparr>req_domain = ''ecs.cn-hongkong.aliyuncs.com'',
              req_params = describe_params host_not_found (JStr ''i-a'') (JStr ''cn-hongkong''),
              req_url = u1\<rparr>])"
    using not_found_run by blast
  let ?t0 = "\<lparr>req_domain = ''cdt.aliyuncs.com'', req_params = traffic_params, req_url = u0\<rparr>"
  have parse: "parse_instances host_not_found demo_env
      = Inr (JArr [cfg ''cn-hongkong'' ''i-a'' 200, cfg ''cn-hongkong'' ''i-b'' 10])"
    by (simp add: parse_instances_def)
  have iter: "iterate (JArr [cfg ''cn-hongkong'' ''i-a'' 200, cfg ''cn-hongkong'' ''i-b'' 10])
      = Inr ([] @ cfg ''cn-hongkong'' ''i-a'' 200 # [cfg ''cn-hongkong'' ''i-b'' 10])"
    by simp
  have before: "instances_loop host_not_found demo_env demo_traffic [] [?t0] = (Inr (), [?t0])"
    by (simp add: io_return_def)
  show ?thesis
    using failure_ends_loop [OF _ _ _ parse iter traffic before fail]
    by (simp add: traffic fail call_of_def)
qed

text \<open>
  The claim as stated fails on the list i-a, i-b when i-a is not found: the run issues the
  traffic request and the status query of i-a and nothing else, although the provider
  would have answered for i-b.
\<close>

theorem isolation_counterexample:
  "map call_of (snd (handleSchedule host_not_found demo_env []))
     = [(''cdt.aliyuncs.com'', traffic_params),
        (''ecs.cn-hongkong.aliyuncs.com'',
           describe_params host_not_found (JStr ''i-a'') (JStr ''cn-hongkong''))]"
proof -
  obtain u0 where u0: "signed_url host_not_found demo_env ''cdt.aliyuncs.com'' traffic_params 0
      = Inr u0"
    using demo_signed(1) [of demo_env "''LTAI-demo''" "''secret''"] by simp blast
  obtain u1 where u1: "signed_url host_not_found demo_env ''ecs.cn-hongkong.aliyuncs.com''
      (describe_params host_not_found (JStr ''i-a'') (JStr ''cn-hongkong'')) (Suc 0) = Inr u1"
    using demo_signed(2) [of demo_env "''LTAI-demo''" "''secret''"] by simp blast
  show ?thesis
    by (simp add: exec_defs u0 u1 call_of_def)
qed

section \<open>The instance state reader\<close>









section \<open>The traffic aggregator\<close>

text \<open>Finite totals as values of the object \<open>trafficByRegion\<close>.\<close>

lemma get_prop_all_or_none:
  "get_prop d k = Inl e \<Longrightarrow> get_prop d k' = Inl e"
  by (cases d) auto

lemma plain_bytes_number:
  assumes "plain_bytes d" "get_prop d ''Traffic'' = Inr t"
  shows "ToNumber P (js_or t (JNum (Fin 0))) = Inr (Fin (claimed_bytes d))"
proof (cases "truthy t")
  case True
  then obtain x where "t = JNum (Fin x)"
    using assms by (auto simp add: plain_bytes_def split: json.splits jsnum.splits)
  then show ?thesis using assms True by (simp add: js_or_def claimed_bytes_def)
next
  case False
  then have "claimed_bytes d = 0"
    using assms by (auto simp add: claimed_bytes_def split: json.splits jsnum.splits)
  then show ?thesis using False by (simp add: js_or_def)
qed

lemma traffic_step_plain:
  assumes pb: "plain_bytes d" and pr: "plain_region P d" and ex: "exact_sums P m [d]"
  shows "traffic_step P (map_option (Num \<circ> Fin) \<circ> m) d
           = Inr (map_option (Num \<circ> Fin) \<circ> acc_step P m d)"
proof -
  obtain t where t: "get_prop d ''Traffic'' = Inr t"
    using pb by (cases "get_prop d ''Traffic''") (auto simp add: plain_bytes_def)
  obtain v where v: "get_prop d ''BusinessRegionId'' = Inr v"
    using t get_prop_all_or_none [of d "''BusinessRegionId''" _ "''Traffic''"]
    by (cases "get_prop d ''BusinessRegionId''") auto
  note n = plain_bytes_number [OF pb t, of P]
  show ?thesis
  proof (cases "truthy v")
    case False
    then show ?thesis by (simp add: traffic_step_def t v acc_step_def region_of_def Let_def)
  next
    case True
    then obtain k where k: "ToString P v = Inr k" and inh: "inherited k = None"
      using pr v by (auto simp add: plain_region_def split: sum.splits)
    have np: "k \<noteq> ''__proto__''"
      using inh by (auto simp add: inherited_def)
    have r: "region_of P d = Some k"
      by (simp add: region_of_def v True k)
    let ?a = "case m k of None \<Rightarrow> 0 | Some a \<Rightarrow> a"
    let ?q = "claimed_bytes d / 1024 ^ 3"
    have e1: "round_double P ?q = Fin ?q" and e2: "round_double P (?a + ?q) = Fin (?a + ?q)"
      using ex r by simp_all
    show ?thesis
    proof (cases "m k")
      case None
      then show ?thesis using True e1 e2
        by (auto simp add: traffic_step_def t v k acc_step_def r Let_def n tbr_read_def inh
              tbr_write_def np fun_eq_iff)
    next
      case (Some a)
      then show ?thesis using True e1 e2
        by (auto simp add: traffic_step_def t v k acc_step_def r Let_def n tbr_read_def inh
              tbr_write_def np fun_eq_iff)
    qed
  qed
qed

lemma traffic_loop_plain:
  "list_all plain_bytes ds \<Longrightarrow> list_all (plain_region P) ds \<Longrightarrow> exact_sums P m ds \<Longrightarrow>
     traffic_loop P (map_option (Num \<circ> Fin) \<circ> m) ds
       = Inr (map_option (Num \<circ> Fin) \<circ> foldl (acc_step P) m ds)"
proof (induction ds arbitrary: m)
  case Nil
  show ?case by simp
next
  case (Cons d ds)
  have "exact_sums P m [d]" using Cons.prems(3) by simp
  then have "traffic_step P (map_option (Num \<circ> Fin) \<circ> m) d
           = Inr (map_option (Num \<circ> Fin) \<circ> acc_step P m d)"
    using Cons.prems(1,2) by (simp add: traffic_step_plain)
  moreover have "traffic_loop P (map_option (Num \<circ> Fin) \<circ> acc_step P m d) ds
       = Inr (map_option (Num \<circ> Fin) \<circ> foldl (acc_step P) (acc_step P m d) ds)"
    using Cons.prems by (intro Cons.IH) simp_all
  ultimately show ?case by (simp only: traffic_loop.simps foldl_Cons try_bind_simps)
qed

lemma acc_step_at:
  "acc_step P m d k =
     (if region_of P d = Some k
      then Some ((case m k of None \<Rightarrow> 0 | Some a \<Rightarrow> a) + claimed_bytes d / 1024 ^ 3)
      else m k)"
  by (auto simp add: acc_step_def split: option.splits)

lemma foldl_acc_step:
  "foldl (acc_step P) m ds k =
     (case filter (\<lambda>d. region_of P d = Some k) ds of
        [] \<Rightarrow> m k
      | fs \<Rightarrow> Some ((case m k of None \<Rightarrow> 0 | Some a \<Rightarrow> a)
                    + sum_list (map (\<lambda>d. claimed_bytes d / 1024 ^ 3) fs)))"
proof (induction ds arbitrary: m)
  case Nil
  show ?case by simp
next
  case (Cons d ds)
  have "foldl (acc_step P) m (d # ds) k = foldl (acc_step P) (acc_step P m d) ds k"
    by simp
  also have "\<dots> = (case filter (\<lambda>d. region_of P d = Some k) ds of
        [] \<Rightarrow> acc_step P m d k
      | fs \<Rightarrow> Some ((case acc_step P m d k of None \<Rightarrow> 0 | Some a \<Rightarrow> a)
                    + sum_list (map (\<lambda>d. claimed_bytes d / 1024 ^ 3) fs)))"
    by (rule Cons.IH)
  also have "\<dots> = (case filter (\<lambda>d. region_of P d = Some k) (d # ds) of
        [] \<Rightarrow> m k
      | fs \<Rightarrow> Some ((case m k of None \<Rightarrow> 0 | Some a \<Rightarrow> a)
                    + sum_list (map (\<lambda>d. claimed_bytes d / 1024 ^ 3) fs)))"
    by (simp add: acc_step_at split: list.splits option.splits)
  finally show ?case .
qed

lemma sum_list_divide:
  "sum_list (map (\<lambda>d. f d / c) xs) = sum_list (map f xs) / (c::real)"
  by (induction xs) (simp_all add: add_divide_distrib)

lemma traffic_loop_totals:
  assumes "list_all plain_bytes ds" "list_all (plain_region P) ds" "exact_sums P Map.empty ds"
  shows "traffic_loop P Map.empty ds = Inr (region_totals P ds)"
proof -
  have "traffic_loop P (map_option (Num \<circ> Fin) \<circ> Map.empty) ds
          = Inr (map_option (Num \<circ> Fin) \<circ> foldl (acc_step P) Map.empty ds)"
    using assms by (rule traffic_loop_plain)
  moreover have "map_option (Num \<circ> Fin) \<circ> foldl (acc_step P) Map.empty ds = region_totals P ds"
    by (auto simp add: fun_eq_iff foldl_acc_step region_totals_def sum_list_divide
          split: list.splits)
  moreover have "map_option (Num \<circ> Fin) \<circ> Map.empty = (Map.empty :: traffic_map)"
    by (simp add: fun_eq_iff)
  ultimately show ?thesis by simp
qed

lemma aggregate_listed:
  assumes "listed_details result = Some ds"
  shows "aggregate P result = traffic_loop P Map.empty ds"
proof (cases result)
  case (JObj kvs)
  show ?thesis
  proof (cases "map_of kvs ''TrafficDetails''")
    case None
    then show ?thesis using assms JObj by (auto simp add: aggregate_def js_or_def)
  next
    case (Some v)
    then show ?thesis using assms JObj
      by (cases v) (auto simp add: aggregate_def js_or_def)
  qed
qed (use assms in auto)

text \<open>
  Claim C4, as amended. Take a list of traffic detail records whose byte counts are
  finite numbers or are absent (or another falsy value, such as null), whose region
  identifiers, where present, are no names of members of \<^verbatim>\<open>Object.prototype\<close>, and
  on which no division and no addition of the loop is rounded. Then
  \<open>getTrafficByRegion\<close> returns the mapping in which each region's value is the sum of
  the byte counts of exactly the records carrying that region identifier (0 for an
  absent byte count), divided by \<open>1024\<^sup>3\<close>; a record with no region identifier
  contributes to no entry, a region no record carries has no entry, and an empty list
  yields the empty mapping without failing.
\<close>

theorem traffic_by_region_totals:
  assumes "requestAliyun P env ''cdt.aliyuncs.com'' traffic_params tr = (Inr result, tr')"
    and "listed_details result = Some details"
    and "list_all plain_bytes details"
    and "list_all (plain_region P) details"
    and "exact_sums P Map.empty details"
  shows "getTrafficByRegion P env tr = (Inr (region_totals P details), tr')
       \<and> (details = [] \<longrightarrow> getTrafficByRegion P env tr = (Inr Map.empty, tr'))"
proof -
  have g: "getTrafficByRegion P env tr = (Inr (region_totals P details), tr')"
    using assms
    by (simp add: getTrafficByRegion_def io_bind_def io_result_def aggregate_listed
          traffic_loop_totals)
  moreover have "region_totals P [] = Map.empty"
    by (simp add: fun_eq_iff region_totals_def)
  ultimately show ?thesis by auto
qed

text \<open>
  Five records: 30 GB and 20 GB for one region, 7 GB and a record without byte count for
  another, 5 GB for no region.
\<close>

theorem traffic_by_region_totals_witness:
  "fst (getTrafficByRegion host_listing demo_env []) = Inr (region_totals host_listing mixed_details)
   \<and> map call_of (snd (getTrafficByRegion host_listing demo_env []))
       = [(''cdt.aliyuncs.com'', traffic_params)]
   \<and> region_totals host_listing mixed_details ''cn-hongkong'' = Some (Num (Fin 50))
   \<and> region_totals host_listing mixed_details ''cn-shenzhen'' = Some (Num (Fin 7))
   \<and> region_totals host_listing mixed_details ''eu-central-1'' = None"
proof -
  obtain u where u: "signed_url host_listing demo_env ''cdt.aliyuncs.com'' traffic_params 0 = Inr u"
    using demo_signed(1) [of demo_env "''LTAI-demo''" "''secret''"] by simp blast
  have req: "requestAliyun host_listing demo_env ''cdt.aliyuncs.com'' traffic_params []
      = (Inr (JObj [(''TrafficDetails'', JArr mixed_details)]),
         [\<lparr>req_domain = ''cdt.aliyuncs.com'', req_params = traffic_params, req_url = u\<rparr>])"
    by (simp add: requestAliyun_def u Let_def)
  have listed: "listed_details (JObj [(''TrafficDetails'', JArr mixed_details)]) = Some mixed_details"
    by simp
  have plain: "list_all plain_bytes mixed_details"
    by (simp add: mixed_details_def detail_def plain_bytes_def)
  have region: "list_all (plain_region host_listing) mixed_details"
    by (simp add: mixed_details_def detail_def plain_region_def inherited_def
          prototype_functions_def)
  have exact: "exact_sums host_listing Map.empty mixed_details"
    by (simp add: mixed_details_def detail_def region_of_def claimed_bytes_def acc_step_def)
  have totals: "region_totals host_listing mixed_details ''cn-hongkong'' = Some (Num (Fin 50))"
    "region_totals host_listing mixed_details ''cn-shenzhen'' = Some (Num (Fin 7))"
    "region_totals host_listing mixed_details ''eu-central-1'' = None"
    by (simp_all add: region_totals_def mixed_details_def detail_def region_of_def claimed_bytes_def)
  show ?thesis
    using traffic_by_region_totals [OF req listed plain region exact] totals
    by (simp add: call_of_def)
qed

text \<open>
  The claim as stated fails for a byte count that is present and not a number. The text
  "abc" is not counted as 0: it turns the total of its region into NaN (the claim gives
  50). The boolean \<open>true\<close> is not counted as 0 either: it counts as one byte. And for the
  region identifier \<^verbatim>\<open>toString\<close> the value is no sum at all: the loop finds the
  inherited function, which is truthy, and appends the gigabytes to its source text.
\<close>

theorem non_numeric_bytes_counterexample:
  "aggregate (demo_platform [] [])
      (JObj [(''TrafficDetails'', JArr [detail ''cn-hongkong'' (JNum (Fin (50 * 1024 ^ 3))),
                                        detail ''cn-hongkong'' (JStr ''abc'')])])
     = Inr [''cn-hongkong'' \<mapsto> Num NaN]
   \<and> region_totals (demo_platform [] [])
        [detail ''cn-hongkong'' (JNum (Fin (50 * 1024 ^ 3))), detail ''cn-hongkong'' (JStr ''abc'')]
        ''cn-hongkong'' = Some (Num (Fin 50))
   \<and> aggregate (demo_platform [] [])
        (JObj [(''TrafficDetails'', JArr [detail ''cn-hongkong'' (JBool True)])])
     = Inr [''cn-hongkong'' \<mapsto> Num (Fin (1 / 1024 ^ 3))]
   \<and> region_totals (demo_platform [] []) [detail ''cn-hongkong'' (JBool True)] ''cn-hongkong''
     = Some (Num (Fin 0))
   \<and> aggregate (demo_platform [] [])
        (JObj [(''TrafficDetails'', JArr [detail ''toString'' (JNum (Fin (1024 ^ 3)))])])
     = Inr [''toString'' \<mapsto> Text ''function toString() { [native code] }1'']
   \<and> region_totals (demo_platform [] []) [detail ''toString'' (JNum (Fin (1024 ^ 3)))] ''toString''
     = Some (Num (Fin 1))"
  by (simp add: aggregate_def js_or_def traffic_step_def detail_def tbr_read_def tbr_write_def
        demo_number_def is_digit_def region_totals_def region_of_def claimed_bytes_def
        inherited_def prototype_functions_def show_nat.simps hex_digit_def)

section \<open>The signature\<close>






























end
